theory Spec2Isabelle
  imports Main "HOL-Library.Monad_Syntax" "HOL-Library.AList"
begin

section \<open>JavaScript values and the operations index.js applies to them\<close>

text \<open>
  A request body is whatever \<^verbatim>\<open>bodyParser.json()\<close> parsed, so the handlers receive
  arbitrary JSON. \<open>Undefined\<close> is what reading a missing property yields. A number is
  held as the decimal text JavaScript prints for it (\<open>''0''\<close> for zero): index.js only
  tests numbers for truthiness, compares them with strings and prints them. An object is
  the list of its own properties in insertion order, with distinct keys. Text is a list of
  8-bit characters.
\<close>

datatype jsval =
    Undefined
  | Null
  | Bool bool
  | Num string
  | Str string
  | Arr "jsval list"
  | Obj "(string \<times> jsval) list"

text \<open>Truthiness, as tested by \<^verbatim>\<open>if (x)\<close>, \<^verbatim>\<open>!x\<close> and \<^verbatim>\<open>x && y\<close>.\<close>

fun truthy :: "jsval \<Rightarrow> bool" where
  "truthy Undefined = False"
| "truthy Null = False"
| "truthy (Bool b) = b"
| "truthy (Num n) = (n \<noteq> ''0'')"
| "truthy (Str s) = (s \<noteq> [])"
| "truthy (Arr xs) = True"
| "truthy (Obj kvs) = True"

text \<open>Decimal digits of a natural number (the value of \<^verbatim>\<open>.length\<close>, printed).\<close>

definition digit :: "nat \<Rightarrow> char" where
  "digit d = ''0123456789'' ! (d mod 10)"

fun show_nat :: "nat \<Rightarrow> string" where
  "show_nat n =
     (if n < 10 then [digit n]
      else show_nat (n div 10) @ [digit (n mod 10)])"

declare show_nat.simps [simp del]

text \<open>
  \<^verbatim>\<open>x.k\<close> for the property names index.js reads. Reading a property of \<^verbatim>\<open>undefined\<close>
  or \<^verbatim>\<open>null\<close> throws a TypeError: the result \<open>None\<close>. Arrays and strings have a
  \<^verbatim>\<open>length\<close>; every other name read from a non-object is \<^verbatim>\<open>undefined\<close>.
\<close>

fun property :: "jsval \<Rightarrow> string \<Rightarrow> jsval option" where
  "property Undefined k = None"
| "property Null k = None"
| "property (Obj kvs) k = Some (case map_of kvs k of None \<Rightarrow> Undefined | Some v \<Rightarrow> v)"
| "property (Arr xs) k = Some (if k = ''length'' then Num (show_nat (length xs)) else Undefined)"
| "property (Str s) k = Some (if k = ''length'' then Num (show_nat (length s)) else Undefined)"
| "property (Bool b) k = Some Undefined"
| "property (Num n) k = Some Undefined"

text \<open>
  \<^verbatim>\<open>x[0]\<close>: the first element of an array, the first character of a string, the
  property \<^verbatim>\<open>"0"\<close> of an object; \<^verbatim>\<open>undefined\<close> when there is none; a TypeError on
  \<^verbatim>\<open>undefined\<close> and \<^verbatim>\<open>null\<close>.
\<close>

fun elem0 :: "jsval \<Rightarrow> jsval option" where
  "elem0 Undefined = None"
| "elem0 Null = None"
| "elem0 (Arr xs) = Some (case xs of [] \<Rightarrow> Undefined | x # _ \<Rightarrow> x)"
| "elem0 (Str s) = Some (case s of [] \<Rightarrow> Undefined | c # _ \<Rightarrow> Str [c])"
| "elem0 (Obj kvs) = Some (case map_of kvs ''0'' of None \<Rightarrow> Undefined | Some v \<Rightarrow> v)"
| "elem0 (Bool b) = Some Undefined"
| "elem0 (Num n) = Some Undefined"

text \<open>
  \<^verbatim>\<open>x.k = v\<close> on an object: an existing property keeps its place, a new one goes last.
  (On a primitive the assignment is dropped; index.js only assigns to an object.)
\<close>

fun set_prop :: "jsval \<Rightarrow> string \<Rightarrow> jsval \<Rightarrow> jsval" where
  "set_prop (Obj kvs) k v = Obj (AList.update k v kvs)"
| "set_prop x k v = x"

fun join_comma :: "string list \<Rightarrow> string" where
  "join_comma [] = []"
| "join_comma [s] = s"
| "join_comma (s # t # ss) = s @ '','' @ join_comma (t # ss)"

text \<open>
  The conversion to a string that \<^verbatim>\<open>'text' + x\<close>, a template literal \<^verbatim>\<open>${x}\<close> and
  \<^verbatim>\<open>x == 'text'\<close> apply to \<open>x\<close>. An array prints its elements joined by commas
  (\<^verbatim>\<open>null\<close> and \<^verbatim>\<open>undefined\<close> elements as nothing). A parsed object prints as
  \<^verbatim>\<open>[object Object]\<close> through the \<^verbatim>\<open>toString\<close> it inherits; when it has a property
  \<^verbatim>\<open>toString\<close> of its own, that property is JSON data and cannot be called, no other
  method yields a primitive, and the conversion throws a TypeError: the result \<open>None\<close>.
  An array throws as soon as one of its elements does.
\<close>

fun to_string :: "jsval \<Rightarrow> string option" where
  "to_string Undefined = Some ''undefined''"
| "to_string Null = Some ''null''"
| "to_string (Bool b) = Some (if b then ''true'' else ''false'')"
| "to_string (Num n) = Some n"
| "to_string (Str s) = Some s"
| "to_string (Arr xs) =
     map_option join_comma
       (those (map (\<lambda>x. if x = Undefined \<or> x = Null then Some [] else to_string x) xs))"
| "to_string (Obj kvs) =
     (case map_of kvs ''toString'' of
        None \<Rightarrow> Some ''[object Object]''
      | Some own \<Rightarrow> None)"

text \<open>
  \<^verbatim>\<open>x == s\<close> for a string \<open>s\<close> that is not the text of a number (so that a number or a
  boolean never equals it): a string is compared as it is, an array or object after its
  conversion to a string, which may throw; \<^verbatim>\<open>null\<close> and \<^verbatim>\<open>undefined\<close> equal no
  string.
\<close>

fun loose_eq_str :: "jsval \<Rightarrow> string \<Rightarrow> bool option" where
  "loose_eq_str (Str t) s = Some (t = s)"
| "loose_eq_str (Arr xs) s = map_option (\<lambda>t. t = s) (to_string (Arr xs))"
| "loose_eq_str (Obj kvs) s = map_option (\<lambda>t. t = s) (to_string (Obj kvs))"
| "loose_eq_str x s = Some False"

text \<open>\<^verbatim>\<open>s.startsWith(p)\<close>.\<close>

fun startsWith :: "string \<Rightarrow> string \<Rightarrow> bool" where
  "startsWith s [] = True"
| "startsWith [] (p # ps) = False"
| "startsWith (c # cs) (p # ps) = (c = p \<and> startsWith cs ps)"

text \<open>\<^verbatim>\<open>s.includes(p)\<close> on strings: \<open>p\<close> occurs somewhere in \<open>s\<close>.\<close>

fun includes_str :: "string \<Rightarrow> string \<Rightarrow> bool" where
  "includes_str [] p = (p = [])"
| "includes_str (c # cs) p = (startsWith (c # cs) p \<or> includes_str cs p)"

text \<open>
  \<^verbatim>\<open>s.replace(p, r)\<close> with a string pattern: only the first occurrence of \<open>p\<close> is
  replaced (\<open>r\<close> holds no \<^verbatim>\<open>$\<close> pattern in index.js).
\<close>

fun replace :: "string \<Rightarrow> string \<Rightarrow> string \<Rightarrow> string" where
  "replace [] p r = (if p = [] then r else [])"
| "replace (c # cs) p r =
     (if startsWith (c # cs) p then r @ drop (length p) (c # cs)
      else c # replace cs p r)"

text \<open>
  \<^verbatim>\<open>x.includes(s)\<close> with a string argument. On an array: some element is the string
  \<open>s\<close>. On a string: \<open>s\<close> occurs in it. On \<^verbatim>\<open>undefined\<close> and \<^verbatim>\<open>null\<close> the property
  read throws, and on an object, number or boolean \<^verbatim>\<open>includes\<close> is not a function: a
  TypeError in both cases.
\<close>

fun js_includes :: "jsval \<Rightarrow> string \<Rightarrow> bool option" where
  "js_includes (Arr xs) s = Some (Str s \<in> set xs)"
| "js_includes (Str t) s = Some (includes_str t s)"
| "js_includes x s = None"

text \<open>A template literal prints a header that is not there as \<^verbatim>\<open>undefined\<close>.\<close>

fun template :: "string option \<Rightarrow> string" where
  "template None = ''undefined''"
| "template (Some s) = s"

definition quoted :: "string \<Rightarrow> string" where
  "quoted s = [CHR 0x22] @ s @ [CHR 0x22]"

section \<open>Requests and responses\<close>

text \<open>
  The parts of an Express request that index.js reads: \<^verbatim>\<open>request.get('Host')\<close> and
  \<^verbatim>\<open>request.get('Authorization')\<close> are \<open>None\<close> when the header is absent.
\<close>

record request =
  http_method :: string
  protocol :: string
  originalUrl :: string
  get_Host :: "string option"
  get_Authorization :: "string option"
  body :: jsval

text \<open>
  The text of a response body: \<open>JSON_stringify v\<close> is the text
  \<^verbatim>\<open>JSON.stringify(v, null, 2)\<close>, which index.js hands to \<^verbatim>\<open>send\<close>; \<open>Page t\<close> is any
  other text, such as the error page of the framework.
\<close>

datatype body_text = JSON_stringify jsval | Page string

text \<open>
  An Express response as explicit state. \<open>payload\<close> is the body handed to \<^verbatim>\<open>send\<close>;
  \<open>finished\<close> says the response has gone to the client. \<^verbatim>\<open>response.status(n)\<close> only
  stores the status code: it sends nothing. Express hands a handler a response with status
  200 and nothing sent.
\<close>

record response =
  statusCode :: nat
  headers :: "string \<rightharpoonup> string"
  payload :: "body_text option"
  finished :: bool

definition status :: "nat \<Rightarrow> response \<Rightarrow> response" where
  "status n r = r\<lparr>statusCode := n\<rparr>"

definition set_header :: "string \<Rightarrow> string \<Rightarrow> response \<Rightarrow> response" where
  "set_header name v r = r\<lparr>headers := (headers r)(name \<mapsto> v)\<rparr>"

definition end_response :: "response \<Rightarrow> response" where
  "end_response r = r\<lparr>finished := True\<rparr>"

definition send :: "body_text \<Rightarrow> response \<Rightarrow> response" where
  "send t r = r\<lparr>payload := Some t, finished := True\<rparr>"

section \<open>Authorization middleware\<close>

record jwk =
  kty :: string
  use :: string
  crv :: string
  kid :: string
  x_coord :: string
  y_coord :: string
  alg :: string

definition publicKeySet :: "jwk list" where
  "publicKeySet =
     [\<lparr>kty = ''EC'', use = ''sig'', crv = ''P-384'',
       kid = ''44823f3d-0b01-4a6c-a80e-b9d3e8a7226f'',
       x_coord = ''dw_JGR8nB2I6XveNxUOl2qk699ZPLM2nYI5STSdiEl9avAkrm3CkfYMbrrjr8laB'',
       y_coord = ''Sm3mLE-n1zYNla_aiE3cb3nZsL51RbC7ysw3q8aJLxGm-hx79RPMYpITDjp7kgzy'',
       alg = ''ES384''\<rparr>]"

record verify_options =
  algorithms :: "string list"
  audience :: string
  issuer :: "string list"
  clockTolerance :: nat

text \<open>What the middleware did: called \<^verbatim>\<open>next()\<close>, or ended the response itself.\<close>

datatype gate = Next | Ended response

text \<open>
  The middleware of lines 38 to 108. The two library calls are parameters:
  \<open>jwkToPem\<close> (package jwk-to-pem) and \<open>jwt_verify\<close> (\<^verbatim>\<open>jwt.verify\<close> of package
  jsonwebtoken), which returns the decoded claims or throws, here \<open>None\<close>. The fields
  \<^verbatim>\<open>x\<close> and \<^verbatim>\<open>y\<close> of the key are \<open>x_coord\<close> and \<open>y_coord\<close>.
\<close>

definition authorize ::
  "(string \<Rightarrow> 'pem \<Rightarrow> verify_options \<Rightarrow> jsval option) \<Rightarrow> (jwk \<Rightarrow> 'pem) \<Rightarrow>
   request \<Rightarrow> response \<Rightarrow> gate" where
  "authorize jwt_verify jwkToPem request response =
     (if http_method request = ''OPTIONS'' then Next
      else
        let serviceHost = get_Host request;
            authorizationHeader = get_Authorization request
        in case authorizationHeader of
             None \<Rightarrow>
               Ended (end_response (status 401 (set_header ''WWW-Authenticate''
                 (''Bearer realm='' @ quoted (template serviceHost) @
                  '', error='' @ quoted ''invalid_token'' @
                  '', error_description='' @ quoted ''No Bearer token provided.'')
                 response)))
           | Some h \<Rightarrow>
               if h = [] \<or> \<not> startsWith h ''Bearer'' then
                 Ended (end_response (status 401 (set_header ''WWW-Authenticate''
                   (''Bearer realm='' @ quoted (template serviceHost) @
                    '', error='' @ quoted ''invalid_token'' @
                    '', error_description='' @ quoted ''No Bearer token provided.'')
                   response)))
               else
                 let token = replace h ''Bearer '' [];
                     aud = protocol request @ ''://'' @ template serviceHost @
                           originalUrl request;
                     pem = jwkToPem (publicKeySet ! 0);
                     options = \<lparr>algorithms = [''ES384'', ''RS384''],
                                audience = aud,
                                issuer = [''https://sandbox.cds-hooks.org''],
                                clockTolerance = 5 * 60\<rparr>
                 in (case jwt_verify token pem options of
                       Some decoded \<Rightarrow> Next
                     | None \<Rightarrow>
                         Ended (end_response (status 401 (set_header ''WWW-Authenticate''
                           (''Bearer realm='' @ quoted (template serviceHost) @
                            '', error='' @ quoted ''invalid_token'' @
                            '', error_description='' @ quoted ''The token is invalid.'')
                           response)))))"

section \<open>Patient View Example Service\<close>

text \<open>
  A handler returns the response it leaves behind, or \<open>None\<close> when it throws a TypeError.
  \<^verbatim>\<open>app.post(path, handler)\<close> lets Express call the handler; when the handler throws,
  Express hands the response to its error handler. That error handler is code of the
  framework and a parameter here.
\<close>

definition post_endpoint ::
  "(response \<Rightarrow> response) \<Rightarrow> (request \<Rightarrow> response \<Rightarrow> response option) \<Rightarrow>
   request \<Rightarrow> response \<Rightarrow> response" where
  "post_endpoint error_handler handler request response =
     (case handler request response of
        Some r \<Rightarrow> r
      | None \<Rightarrow> error_handler response)"

text \<open>
  Lines 159 to 191. The two \<^verbatim>\<open>+\<close> chains convert what they append to a string, in
  the order of the source.
\<close>

definition patient_view_example :: "request \<Rightarrow> response \<Rightarrow> response option" where
  "patient_view_example request response = do {
     prefetch \<leftarrow> property (body request) ''prefetch'';
     patientResource \<leftarrow> property prefetch ''requestedPatient'';
     name \<leftarrow> property patientResource ''name'';
     name0 \<leftarrow> elem0 name;
     given \<leftarrow> property name0 ''given'';
     given0 \<leftarrow> elem0 given;
     given_text \<leftarrow> to_string given0;
     family \<leftarrow> property name0 ''family'';
     family0 \<leftarrow> elem0 family;
     family_text \<leftarrow> to_string family0;
     birthDate \<leftarrow> property patientResource ''birthDate'';
     birthDate_text \<leftarrow> to_string birthDate;
     let patientViewCard = Obj
       [(''cards'', Arr
          [Obj [(''summary'',
                 Str (''Now seeing: '' @ given_text @ '' '' @ family_text)),
                (''detail'', Str (''Patient birthdate: '' @ birthDate_text)),
                (''indicator'', Str ''info''),
                (''source'', Obj
                   [(''label'', Str ''CDS Service Tutorial''),
                    (''url'', Str
                       ''https://github.com/cerner/cds-services-tutorial/wiki/Patient-View-Service'')]),
                (''links'', Arr
                   [Obj [(''label'', Str ''Learn more about CDS Hooks''),
                         (''url'', Str ''http://cds-hooks.org''),
                         (''type'', Str ''absolute'')],
                    Obj [(''label'', Str ''Launch SMART App!''),
                         (''url'', Str
                            ''https://engineering.cerner.com/smart-on-fhir-tutorial/example-smart-app/launch.html''),
                         (''type'', Str ''smart'')]])]])];
     Some (send (JSON_stringify patientViewCard) response)
   }"

section \<open>Retrieving the hypertension conditions\<close>

text \<open>
  A promise is modelled by how it settles. What a promise is rejected with is either a
  value of the library's or the TypeError that a callback threw.
\<close>

datatype reason = TypeError | Reason jsval

datatype settled = Fulfilled jsval | Rejected reason

text \<open>\<^verbatim>\<open>p.then(f)\<close>: \<open>f\<close> runs when \<open>p\<close> is fulfilled; if \<open>f\<close> throws, the result is rejected.\<close>

definition promise_then :: "settled \<Rightarrow> (jsval \<Rightarrow> jsval option) \<Rightarrow> settled" where
  "promise_then p f =
     (case p of
        Fulfilled v \<Rightarrow> (case f v of Some r \<Rightarrow> Fulfilled r | None \<Rightarrow> Rejected TypeError)
      | Rejected e \<Rightarrow> Rejected e)"

text \<open>\<^verbatim>\<open>p.catch(g)\<close>: \<open>g\<close> runs when \<open>p\<close> is rejected, and its result fulfils the promise.\<close>

definition promise_catch :: "settled \<Rightarrow> (reason \<Rightarrow> jsval option) \<Rightarrow> settled" where
  "promise_catch p g =
     (case p of
        Fulfilled v \<Rightarrow> Fulfilled v
      | Rejected e \<Rightarrow> (case g e of Some r \<Rightarrow> Fulfilled r | None \<Rightarrow> Rejected TypeError))"

text \<open>
  Reading a property of what was caught. A TypeError object has a \<^verbatim>\<open>message\<close> (its text
  is not modelled: index.js only logs it) and no \<^verbatim>\<open>status\<close>.
\<close>

fun reason_property :: "reason \<Rightarrow> string \<Rightarrow> jsval option" where
  "reason_property TypeError k =
     Some (if k = ''message'' then Str ''TypeError'' else Undefined)"
| "reason_property (Reason v) k = property v k"

text \<open>
  \<^verbatim>\<open>'text' + error\<close> for what was caught: a TypeError object prints (its text is not
  modelled), a value of the library's is converted as any value is.
\<close>

fun reason_to_string :: "reason \<Rightarrow> string option" where
  "reason_to_string TypeError = Some ''TypeError''"
| "reason_to_string (Reason v) = to_string v"

text \<open>
  \<^verbatim>\<open>fhirAuthorization && fhirAuthorization.access_token\<close>: the token when both are
  truthy.
\<close>

definition access_token_of :: "jsval \<Rightarrow> jsval option" where
  "access_token_of fhirAuthorization =
     (if truthy fhirAuthorization then
        (case property fhirAuthorization ''access_token'' of
           Some t \<Rightarrow> if truthy t then Some t else None
         | None \<Rightarrow> None)
      else None)"

text \<open>
  Lines 255 to 278. \<open>axios_get\<close> is \<^verbatim>\<open>axios.get\<close>: it says how the request settles.
  The result is \<open>None\<close> when the function itself throws, which it does when the access
  token cannot be converted to a string for the header. What \<^verbatim>\<open>console.log\<close> prints
  is left out; the conversion of its argument to a string is not.
\<close>

definition retrieveHypertensionConditionsAxios ::
  "(string \<Rightarrow> jsval \<Rightarrow> settled) \<Rightarrow> jsval \<Rightarrow> jsval \<Rightarrow> jsval \<Rightarrow> settled option" where
  "retrieveHypertensionConditionsAxios axios_get fhirServer patientId fhirAuthorization = do {
     let accept = Obj [(''Accept'', Str ''application/json+fhir'')];
     request_headers \<leftarrow>
       (case access_token_of fhirAuthorization of
          Some t \<Rightarrow> do {
            token_text \<leftarrow> to_string t;
            Some (set_prop accept ''Authorization'' (Str (''Bearer '' @ token_text)))
          }
        | None \<Rightarrow> Some accept);
     Some (promise_catch
       (promise_then
          (axios_get ''/Condition''
             (Obj [(''baseURL'', fhirServer),
                   (''params'', Obj [(''patient'', patientId),
                                     (''code'', Str ''http://snomed.info/sct|1201005'')]),
                   (''headers'', request_headers),
                   (''timeout'', Num ''2000'')]))
          (\<lambda>result. do {
             data \<leftarrow> property result ''data'';
             if \<not> truthy data then Some Undefined
             else do {
               resourceType \<leftarrow> property data ''resourceType'';
               if truthy resourceType \<and> resourceType = Str ''Bundle'' then Some data
               else Some Undefined
             }
           }))
       (\<lambda>error. do {
          error_text \<leftarrow> reason_to_string error;
          Some Undefined
        }))
   }"

text \<open>
  Lines 280 to 308. \<open>fhir_search\<close> is \<^verbatim>\<open>fhir(config).search(query)\<close> of package fhir.js.
  The two calls of \<^verbatim>\<open>console.log\<close> are left out: they convert nothing to a string.
\<close>

definition retrieveHypertensionConditionsFhirJs ::
  "(jsval \<Rightarrow> jsval \<Rightarrow> settled) \<Rightarrow> jsval \<Rightarrow> jsval \<Rightarrow> jsval \<Rightarrow> settled" where
  "retrieveHypertensionConditionsFhirJs fhir_search fhirServer patientId fhirAuthorization =
     (let base = Obj [(''baseUrl'', fhirServer)];
          config =
            (case access_token_of fhirAuthorization of
               Some t \<Rightarrow> set_prop base ''auth'' (Obj [(''bearer'', t)])
             | None \<Rightarrow> base)
      in promise_catch
           (promise_then
              (fhir_search config
                 (Obj [(''type'', Str ''Condition''),
                       (''query'', Obj [(''patient'', patientId),
                                        (''code'', Str ''http://snomed.info/sct|1201005'')])]))
              (\<lambda>res. property res ''data''))
           (\<lambda>res. do {
              res_status \<leftarrow> reason_property res ''status'';
              res_message \<leftarrow> reason_property res ''message'';
              Some Undefined
            }))"

section \<open>Patient View Hypertension Service\<close>

text \<open>
  The callback given to \<^verbatim>\<open>.then\<close> at line 203. It returns the response it leaves
  behind, or \<open>None\<close> when it throws (nothing has been sent at that point).
\<close>

definition conditions_callback :: "jsval \<Rightarrow> response \<Rightarrow> response option" where
  "conditions_callback conditionsBundle response = do {
     entry \<leftarrow> property conditionsBundle ''entry'';
     if \<not> truthy entry then Some response
     else do {
       entry_length \<leftarrow> property entry ''length'';
       if \<not> truthy entry_length then Some response
       else do {
         entry0 \<leftarrow> elem0 entry;
         resource \<leftarrow> property entry0 ''resource'';
         resourceType \<leftarrow> property resource ''resourceType'';
         is_condition \<leftarrow> loose_eq_str resourceType ''Condition'';
         if is_condition then do {
           code \<leftarrow> property resource ''code'';
           text \<leftarrow> property code ''text'';
           condition_text \<leftarrow> to_string text;
           let patientHypertensionCard = Obj
             [(''cards'', Arr
                [Obj [(''summary'', Str (''Existing condition: '' @ condition_text)),
                      (''indicator'', Str ''warning''),
                      (''source'', Obj
                         [(''label'', Str ''CDS Service Tutorial''),
                          (''url'', Str
                             ''https://github.com/cerner/cds-services-tutorial/wiki/Exercises'')])]])];
           Some (send (JSON_stringify patientHypertensionCard) response)
         }
         else Some response
       }
     }
   }"

text \<open>
  The handler of lines 196 to 224 runs in two steps: \<open>at_return\<close> is the response when
  the handler returns, the fetch still in flight; \<open>at_settled\<close> is the response once the
  fetch has settled and the callback, if it was called, has run.
\<close>

record hypertension_run =
  at_return :: response
  at_settled :: response

definition patient_view_hypertension ::
  "(jsval \<Rightarrow> jsval \<Rightarrow> settled) \<Rightarrow> request \<Rightarrow> response \<Rightarrow> hypertension_run option" where
  "patient_view_hypertension fhir_search request response = do {
     fhirServer \<leftarrow> property (body request) ''fhirServer'';
     context \<leftarrow> property (body request) ''context'';
     patientId \<leftarrow> property context ''patientId'';
     fhirAuthorization \<leftarrow> property (body request) ''fhirAuthorization'';
     let conditions =
       retrieveHypertensionConditionsFhirJs fhir_search fhirServer patientId fhirAuthorization;
     let response1 = status 200 response;
     Some \<lparr>at_return = response1,
           at_settled =
             (case conditions of
                Fulfilled conditionsBundle \<Rightarrow>
                  (case conditions_callback conditionsBundle response1 of
                     Some response2 \<Rightarrow> response2
                   | None \<Rightarrow> response1)
              | Rejected e \<Rightarrow> response1)\<rparr>
   }"

section \<open>Order Select Example Service\<close>

text \<open>
  Lines 315 to 376. \<^verbatim>\<open>newMedicationRequest\<close> is the order itself, not a copy of it:
  the assignment changes the order in the request as well, which nothing reads afterwards.
\<close>

definition createMedicationResponseCard :: "jsval \<Rightarrow> jsval option" where
  "createMedicationResponseCard context = do {
     medicationCodeableConcept \<leftarrow> property context ''medicationCodeableConcept'';
     coding \<leftarrow> property medicationCodeableConcept ''coding'';
     coding0 \<leftarrow> elem0 coding;
     providerOrderedMedication \<leftarrow> property coding0 ''code'';
     if providerOrderedMedication = Str ''243670'' then
       Some (Obj
         [(''cards'', Arr
            [Obj [(''summary'', Str ''Currently prescribing a low-dose Aspirin''),
                  (''indicator'', Str ''info''),
                  (''source'', Obj
                     [(''label'', Str ''CDS Service Tutorial''),
                      (''url'', Str
                         ''https://github.com/cerner/cds-services-tutorial/wiki/Order-Select-Service'')])]])])
     else
       let newMedicationRequest = set_prop context ''medicationCodeableConcept''
             (Obj [(''text'', Str ''Aspirin 81 MG Oral Tablet''),
                   (''coding'', Arr
                      [Obj [(''display'', Str ''Aspirin 81 MG Oral Tablet''),
                            (''system'', Str ''http://www.nlm.nih.gov/research/umls/rxnorm''),
                            (''code'', Str ''243670'')]])])
       in Some (Obj
         [(''cards'', Arr
            [Obj [(''summary'',
                   Str ''Reduce cardiovascular risks, prescribe daily 81 MG Aspirin''),
                  (''indicator'', Str ''warning''),
                  (''suggestions'', Arr
                     [Obj [(''label'', Str ''Switch to low-dose Aspirin''),
                           (''actions'', Arr
                              [Obj [(''type'', Str ''create''),
                                    (''description'', Str
                                       ''Modifying existing medication order to be Aspirin''),
                                    (''resource'', newMedicationRequest)]])]]),
                  (''source'', Obj
                     [(''label'', Str ''CDS Service Tutorial''),
                      (''url'', Str
                         ''https://github.com/cerner/cds-services-tutorial/wiki/Order-Select-Service'')])]])])
   }"

text \<open>
  The condition of line 242, its three conjuncts evaluated from left to right, each only
  if the one before holds. The template literal converts the resource type and the id to
  strings, which throws for an id that cannot be converted.
\<close>

definition medication_chosen :: "jsval \<Rightarrow> jsval \<Rightarrow> bool option" where
  "medication_chosen draftOrder selections = do {
     resourceType \<leftarrow> property draftOrder ''resourceType'';
     if resourceType \<noteq> Str ''MedicationRequest'' \<and> resourceType \<noteq> Str ''MedicationOrder''
     then Some False
     else do {
       resourceType_text \<leftarrow> to_string resourceType;
       draft_id \<leftarrow> property draftOrder ''id'';
       draft_id_text \<leftarrow> to_string draft_id;
       selected \<leftarrow> js_includes selections (resourceType_text @ ''/'' @ draft_id_text);
       if \<not> selected then Some False
       else do {
         medicationCodeableConcept \<leftarrow> property draftOrder ''medicationCodeableConcept'';
         Some (truthy medicationCodeableConcept)
       }
     }
   }"

text \<open>The handler of lines 235 to 248.\<close>

definition order_select_example :: "request \<Rightarrow> response \<Rightarrow> response option" where
  "order_select_example request response = do {
     context \<leftarrow> property (body request) ''context'';
     draftOrders \<leftarrow> property context ''draftOrders'';
     entry \<leftarrow> property draftOrders ''entry'';
     entry0 \<leftarrow> elem0 entry;
     draftOrder \<leftarrow> property entry0 ''resource'';
     selections \<leftarrow> property context ''selections'';
     chosen \<leftarrow> medication_chosen draftOrder selections;
     if chosen then do {
       responseCard \<leftarrow> createMedicationResponseCard draftOrder;
       Some (status 200 (send (JSON_stringify responseCard) response))
     }
     else Some (status 200 response)
   }"

section \<open>Reading along a path\<close>

text \<open>
  \<open>follow v path\<close> reads \<^verbatim>\<open>v.a.b[0].c\<close> step by step, \<open>None\<close> as soon as a step
  throws. The properties below use it to say where a request holds a value.
\<close>

datatype step = Key string | First

fun follow :: "jsval \<Rightarrow> step list \<Rightarrow> jsval option" where
  "follow v [] = Some v"
| "follow v (Key k # path) = (case property v k of None \<Rightarrow> None | Some w \<Rightarrow> follow w path)"
| "follow v (First # path) = (case elem0 v of None \<Rightarrow> None | Some w \<Rightarrow> follow w path)"

section \<open>Sample requests\<close>

definition plain_response :: response where
  "plain_response =
     \<lparr>statusCode = 200, headers = Map.empty, payload = None, finished = False\<rparr>"

definition request_without_token :: request where
  "request_without_token =
     \<lparr>http_method = ''POST'', protocol = ''https'',
      originalUrl = ''/cds-services/patient-view-example'',
      get_Host = Some ''cds.example.org'', get_Authorization = None, body = Obj []\<rparr>"

definition request_with_token :: "string \<Rightarrow> request" where
  "request_with_token h = request_without_token\<lparr>get_Authorization := Some h\<rparr>"

text \<open>
  A stand-in for the two library calls: one token is good, for the services of one host.
\<close>

definition sample_pem :: "jwk \<Rightarrow> string" where
  "sample_pem k = kid k"

definition sample_verify :: "string \<Rightarrow> string \<Rightarrow> verify_options \<Rightarrow> jsval option" where
  "sample_verify token pem options =
     (if token = ''good'' \<and>
         startsWith (audience options) ''https://cds.example.org/cds-services/''
      then Some (Obj [(''iss'', Str ''https://sandbox.cds-hooks.org'')])
      else None)"

text \<open>A POST to one of the services with the good token and the given body.\<close>

definition cds_request :: "string \<Rightarrow> jsval \<Rightarrow> request" where
  "cds_request url b = (request_with_token ''Bearer good'')\<lparr>originalUrl := url, body := b\<rparr>"

text \<open>
  A stand-in for the error handler of Express: an error without a status of its own is
  answered with status 500, or with the status the response has when that is an error
  status, and with an HTML page, whose text is not modelled.
\<close>

definition express_error_handler :: "response \<Rightarrow> response" where
  "express_error_handler response =
     response\<lparr>statusCode :=
                (if 400 \<le> statusCode response \<and> statusCode response \<le> 599
                 then statusCode response else 500),
              payload := Some (Page ''<pre>TypeError</pre>''),
              finished := True\<rparr>"

text \<open>A value that cannot be converted to a string: an object with its own \<^verbatim>\<open>toString\<close>.\<close>

definition unprintable :: jsval where
  "unprintable = Obj [(''toString'', Num ''1'')]"

text \<open>A patient as the prefetch template \<^verbatim>\<open>Patient/{{context.patientId}}\<close> delivers it.\<close>

definition tom_hanks :: jsval where
  "tom_hanks =
     Obj [(''resourceType'', Str ''Patient''),
          (''name'', Arr [Obj [(''given'', Arr [Str ''Tom'']),
                              (''family'', Arr [Str ''Hanks''])]]),
          (''birthDate'', Str ''1980-01-01'')]"

definition greeting_request_for :: "jsval \<Rightarrow> request" where
  "greeting_request_for patient =
     cds_request ''/cds-services/patient-view-example''
       (Obj [(''prefetch'', Obj [(''requestedPatient'', patient)])])"

definition greeting_request :: request where
  "greeting_request = greeting_request_for tom_hanks"


text \<open>An order-select request: the draft orders and what the clinician selected.\<close>

definition draft_order :: "string \<Rightarrow> jsval" where
  "draft_order code =
     Obj [(''resourceType'', Str ''MedicationRequest''),
          (''id'', Str ''request-123''),
          (''medicationCodeableConcept'', Obj
             [(''coding'', Arr
                 [Obj [(''system'', Str ''http://www.nlm.nih.gov/research/umls/rxnorm''),
                       (''code'', Str code)]])])]"

definition order_request :: "jsval list \<Rightarrow> jsval list \<Rightarrow> request" where
  "order_request drafts selections =
     cds_request ''/cds-services/order-select-example''
       (Obj [(''context'', Obj
               [(''selections'', Arr selections),
                (''draftOrders'', Obj
                   [(''resourceType'', Str ''Bundle''),
                    (''entry'', Arr (map (\<lambda>d. Obj [(''resource'', d)]) drafts))])])])"

text \<open>A draft order that is no medication order.\<close>

definition service_order :: jsval where
  "service_order = Obj [(''resourceType'', Str ''ServiceRequest''), (''id'', Str ''request-7'')]"


definition order_with_unprintable_id :: jsval where
  "order_with_unprintable_id =
     Obj [(''resourceType'', Str ''MedicationRequest''), (''id'', unprintable)]"


definition empty_greeting_request :: request where
  "empty_greeting_request = cds_request ''/cds-services/patient-view-example'' (Obj [])"

definition empty_order_request :: request where
  "empty_order_request = cds_request ''/cds-services/order-select-example'' (Obj [])"


text \<open>A patient-view request for the hypertension service, and answers of the FHIR server.\<close>

definition hypertension_request :: request where
  "hypertension_request =
     cds_request ''/cds-services/patient-view-hypertension''
       (Obj [(''hook'', Str ''patient-view''),
             (''fhirServer'', Str ''https://fhir.example.org/r2''),
             (''context'', Obj [(''patientId'', Str ''SMART-1288992'')])])"

definition condition_entry :: "string \<Rightarrow> jsval" where
  "condition_entry t =
     Obj [(''resource'', Obj [(''resourceType'', Str ''Condition''),
                              (''code'', Obj [(''text'', Str t)])])]"

definition condition_entry_with :: "jsval \<Rightarrow> jsval" where
  "condition_entry_with t =
     Obj [(''resource'', Obj [(''resourceType'', Str ''Condition''),
                              (''code'', Obj [(''text'', t)])])]"

definition outcome_entry :: jsval where
  "outcome_entry = Obj [(''resource'', Obj [(''resourceType'', Str ''OperationOutcome'')])]"

definition operation_outcome :: jsval where
  "operation_outcome =
     Obj [(''resourceType'', Str ''OperationOutcome''),
          (''issue'', Arr [Obj [(''severity'', Str ''error'')]])]"

definition bundle_of :: "jsval list \<Rightarrow> jsval" where
  "bundle_of entries = Obj [(''resourceType'', Str ''Bundle''), (''entry'', Arr entries)]"

definition bundle_without_entry :: jsval where
  "bundle_without_entry =
     Obj [(''resourceType'', Str ''Bundle''), (''type'', Str ''searchset''),
          (''total'', Num ''0'')]"

definition search_returns :: "jsval \<Rightarrow> jsval \<Rightarrow> jsval \<Rightarrow> settled" where
  "search_returns data config query = Fulfilled (Obj [(''data'', data)])"

definition axios_returns :: "jsval \<Rightarrow> string \<Rightarrow> jsval \<Rightarrow> settled" where
  "axios_returns data url config =
     Fulfilled (Obj [(''data'', data), (''status'', Num ''200'')])"

definition axios_fails :: "string \<Rightarrow> jsval \<Rightarrow> settled" where
  "axios_fails url config =
     Rejected (Reason (Obj [(''message'', Str ''timeout of 2000ms exceeded'')]))"

definition search_fails :: "jsval \<Rightarrow> jsval \<Rightarrow> settled" where
  "search_fails config query = Rejected (Reason (Obj [(''status'', Num ''500'')]))"

section \<open>What the specification reads off a response\<close>

text \<open>
  The specification's words, to be compared with what the handlers do. A bundle
  \<^emph>\<open>contains a Condition\<close> when some entry of it has a resource of that type. A card
  \<^emph>\<open>has its source\<close> when \<^verbatim>\<open>source\<close> is an object with a label and a url that are not
  empty. A body is a \<^emph>\<open>cards body\<close> when it is the JSON text of an object whose
  \<^verbatim>\<open>cards\<close> is an array of cards that have their source.
\<close>

definition contains_condition :: "jsval \<Rightarrow> bool" where
  "contains_condition bundle =
     (case property bundle ''entry'' of
        Some (Arr entries) \<Rightarrow>
          list_ex (\<lambda>e. follow e [Key ''resource'', Key ''resourceType''] =
                       Some (Str ''Condition'')) entries
      | _ \<Rightarrow> False)"

definition has_source :: "jsval \<Rightarrow> bool" where
  "has_source the_card =
     (case property the_card ''source'' of
        Some (Obj source) \<Rightarrow>
          (case map_of source ''label'' of
             Some (Str l) \<Rightarrow>
               (case map_of source ''url'' of Some (Str u) \<Rightarrow> l \<noteq> [] \<and> u \<noteq> [] | _ \<Rightarrow> False)
           | _ \<Rightarrow> False)
      | _ \<Rightarrow> False)"

definition cards_body :: "body_text \<Rightarrow> bool" where
  "cards_body t =
     (case t of
        JSON_stringify (Obj kvs) \<Rightarrow>
          (case map_of kvs ''cards'' of Some (Arr cards) \<Rightarrow> list_all has_source cards
           | _ \<Rightarrow> False)
      | _ \<Rightarrow> False)"

section \<open>The Request Gate\<close>

text \<open>
  C1. A request that is not OPTIONS and whose Authorization header starts with
  \<^verbatim>\<open>Bearer\<close> passes the gate exactly when \<^verbatim>\<open>jwt.verify\<close> accepts the token (the
  header with its first \<^verbatim>\<open>Bearer \<close> removed) under the fixed public key, with the
  algorithms ES384 and RS384 only, the issuer list of one fixed issuer, the audience
  \<^verbatim>\<open>protocol://host\<close> followed by the original URL of this very request, and a clock
  tolerance of 300 seconds. When the verification fails the response is ended with status 401 and a
  \<^verbatim>\<open>WWW-Authenticate\<close> challenge whose error code is \<^verbatim>\<open>invalid_token\<close>; no body is
  written.
\<close>

theorem request_gate_bearer_token:
  assumes "http_method request \<noteq> ''OPTIONS''"
    and "get_Authorization request = Some h"
    and "startsWith h ''Bearer''"
  shows "(authorize jwt_verify jwkToPem request response = Next \<longleftrightarrow>
          jwt_verify (replace h ''Bearer '' []) (jwkToPem (publicKeySet ! 0))
            \<lparr>algorithms = [''ES384'', ''RS384''],
             audience = protocol request @ ''://'' @ template (get_Host request) @
                        originalUrl request,
             issuer = [''https://sandbox.cds-hooks.org''],
             clockTolerance = 300\<rparr> \<noteq> None)
       \<and> (authorize jwt_verify jwkToPem request response \<noteq> Next \<longrightarrow>
          authorize jwt_verify jwkToPem request response =
            Ended (response\<lparr>statusCode := 401,
                     headers := (headers response)(''WWW-Authenticate'' \<mapsto>
                        ''Bearer realm='' @ quoted (template (get_Host request)) @
                        '', error='' @ quoted ''invalid_token'' @
                        '', error_description='' @ quoted ''The token is invalid.''),
                     finished := True\<rparr>))"
proof -
  from assms(3) have "h \<noteq> []"
    by (cases h) auto
  with assms show ?thesis
    by (auto simp: authorize_def Let_def status_def set_header_def end_response_def
             split: option.splits)
qed

theorem request_gate_bearer_token_witness:
  "http_method (request_with_token ''Bearer good'') \<noteq> ''OPTIONS''
   \<and> get_Authorization (request_with_token ''Bearer good'') = Some ''Bearer good''
   \<and> startsWith ''Bearer good'' ''Bearer''
   \<and> authorize sample_verify sample_pem (request_with_token ''Bearer good'') plain_response
       = Next
   \<and> authorize sample_verify sample_pem (request_with_token ''Bearer bad'') plain_response
       = Ended (plain_response\<lparr>statusCode := 401,
                  headers := (headers plain_response)(''WWW-Authenticate'' \<mapsto>
                     ''Bearer realm='' @ quoted ''cds.example.org'' @
                     '', error='' @ quoted ''invalid_token'' @
                     '', error_description='' @ quoted ''The token is invalid.''),
                  finished := True\<rparr>)"
proof -
  have m: "http_method (request_with_token t) \<noteq> ''OPTIONS''" for t
    by (simp add: request_with_token_def request_without_token_def)
  have a: "get_Authorization (request_with_token t) = Some t" for t
    by (simp add: request_with_token_def)
  have g: "startsWith ''Bearer good'' ''Bearer''" and b: "startsWith ''Bearer bad'' ''Bearer''"
    by simp_all
  show ?thesis
    using request_gate_bearer_token [OF m a g, of sample_verify sample_pem plain_response]
      request_gate_bearer_token [OF m a b, of sample_verify sample_pem plain_response]
    by (simp add: m a sample_verify_def request_with_token_def request_without_token_def)
qed

text \<open>
  C2, as index.js has it. A request that is not OPTIONS and whose Authorization header is
  absent, empty or does not start with \<^verbatim>\<open>Bearer\<close> is ended with status 401 and the
  challenge \<^verbatim>\<open>Bearer realm="<host>", error="invalid_token",
  error_description="No Bearer token provided."\<close>; no body is written. The error code
  is \<^verbatim>\<open>invalid_token\<close>, the one of a failed verification, and only the description
  tells the two apart.
\<close>

theorem request_gate_no_bearer:
  assumes "http_method request \<noteq> ''OPTIONS''"
    and "get_Authorization request = None \<or>
         (\<exists>h. get_Authorization request = Some h \<and> \<not> startsWith h ''Bearer'')"
  shows "authorize jwt_verify jwkToPem request response =
           Ended (response\<lparr>statusCode := 401,
                    headers := (headers response)(''WWW-Authenticate'' \<mapsto>
                       ''Bearer realm='' @ quoted (template (get_Host request)) @
                       '', error='' @ quoted ''invalid_token'' @
                       '', error_description='' @ quoted ''No Bearer token provided.''),
                    finished := True\<rparr>)"
  using assms
  by (auto simp: authorize_def Let_def status_def set_header_def end_response_def
           split: option.splits)

theorem request_gate_no_bearer_witness:
  "http_method (request_with_token ''Basic dXNlcg=='') \<noteq> ''OPTIONS''
   \<and> get_Authorization (request_with_token ''Basic dXNlcg=='') = Some ''Basic dXNlcg==''
   \<and> \<not> startsWith ''Basic dXNlcg=='' ''Bearer''
   \<and> authorize sample_verify sample_pem (request_with_token ''Basic dXNlcg=='') plain_response
       = Ended (plain_response\<lparr>statusCode := 401,
                  headers := (headers plain_response)(''WWW-Authenticate'' \<mapsto>
                     ''Bearer realm='' @ quoted ''cds.example.org'' @
                     '', error='' @ quoted ''invalid_token'' @
                     '', error_description='' @ quoted ''No Bearer token provided.''),
                  finished := True\<rparr>)"
proof -
  have m: "http_method (request_with_token ''Basic dXNlcg=='') \<noteq> ''OPTIONS''"
    by (simp add: request_with_token_def request_without_token_def)
  have a: "get_Authorization (request_with_token ''Basic dXNlcg=='') = None \<or>
           (\<exists>h. get_Authorization (request_with_token ''Basic dXNlcg=='') = Some h \<and>
                \<not> startsWith h ''Bearer'')"
    by (simp add: request_with_token_def)
  show ?thesis
    using request_gate_no_bearer [OF m a, of sample_verify sample_pem plain_response]
    by (simp add: request_with_token_def request_without_token_def)
qed

text \<open>
  C2 as the specification words it asks for the error code \<^verbatim>\<open>missing_token\<close>. A POST
  without an Authorization header is answered with 401 and a challenge that names
  \<^verbatim>\<open>invalid_token\<close> and nowhere holds \<^verbatim>\<open>missing_token\<close>.
\<close>

theorem request_gate_missing_token_counterexample:
  "authorize sample_verify sample_pem request_without_token plain_response =
     Ended (plain_response\<lparr>statusCode := 401,
              headers := (headers plain_response)(''WWW-Authenticate'' \<mapsto>
                 ''Bearer realm='' @ quoted ''cds.example.org'' @
                 '', error='' @ quoted ''invalid_token'' @
                 '', error_description='' @ quoted ''No Bearer token provided.''),
              finished := True\<rparr>)
   \<and> \<not> includes_str
         (''Bearer realm='' @ quoted ''cds.example.org'' @
          '', error='' @ quoted ''invalid_token'' @
          '', error_description='' @ quoted ''No Bearer token provided.'')
         ''missing_token''"
  by (simp add: authorize_def request_without_token_def status_def set_header_def
        end_response_def quoted_def)

section \<open>The Patient Greeting handler\<close>




section \<open>The Order Substitution handler\<close>

text \<open>
  The decision of the handler, for a first draft order that is a MedicationRequest or
  MedicationOrder whose id can be converted to a string. If its reference
  \<^verbatim>\<open>resourceType/id\<close> is among the selections and its first coding has the code
  \<^verbatim>\<open>243670\<close>, the handler sends exactly one card, of indicator \<^verbatim>\<open>info\<close> and without
  suggestions. If the reference is among the selections and the first coding has another
  code, it sends exactly one card, of indicator \<^verbatim>\<open>warning\<close>, with one suggestion of one
  action whose resource is the draft order with its medication replaced by the coding of
  display \<^verbatim>\<open>Aspirin 81 MG Oral Tablet\<close>, system
  \<^verbatim>\<open>http://www.nlm.nih.gov/research/umls/rxnorm\<close> and code \<^verbatim>\<open>243670\<close>. If the
  reference is not among the selections the handler stores the status 200 and sends
  nothing.
\<close>

lemma order_select_decision:
  assumes d: "follow (body request)
             [Key ''context'', Key ''draftOrders'', Key ''entry'', First, Key ''resource'']
           = Some draftOrder"
    and s: "follow (body request) [Key ''context'', Key ''selections''] = Some selections"
    and rt: "property draftOrder ''resourceType'' = Some (Str rt)"
      "rt = ''MedicationRequest'' \<or> rt = ''MedicationOrder''"
    and i: "property draftOrder ''id'' = Some draft_id"
      "to_string draft_id = Some id_text"
  shows "(js_includes selections (rt @ ''/'' @ id_text) = Some True \<and>
          follow draftOrder [Key ''medicationCodeableConcept'', Key ''coding'', First, Key ''code'']
            = Some (Str ''243670'') \<longrightarrow>
            (\<exists>r the_card. order_select_example request response = Some r
               \<and> finished r \<and> statusCode r = 200
               \<and> payload r = Some (JSON_stringify (Obj [(''cards'', Arr [the_card])]))
               \<and> property the_card ''indicator'' = Some (Str ''info'')
               \<and> property the_card ''suggestions'' = Some Undefined))
       \<and> (js_includes selections (rt @ ''/'' @ id_text) = Some True \<and>
          follow draftOrder [Key ''medicationCodeableConcept'', Key ''coding'', First, Key ''code'']
            = Some code \<and> code \<noteq> Str ''243670'' \<longrightarrow>
            (\<exists>r the_card suggestion action resource.
               order_select_example request response = Some r
               \<and> finished r \<and> statusCode r = 200
               \<and> payload r = Some (JSON_stringify (Obj [(''cards'', Arr [the_card])]))
               \<and> property the_card ''indicator'' = Some (Str ''warning'')
               \<and> property the_card ''suggestions'' = Some (Arr [suggestion])
               \<and> property suggestion ''actions'' = Some (Arr [action])
               \<and> property action ''resource'' = Some resource
               \<and> resource = set_prop draftOrder ''medicationCodeableConcept''
                    (Obj [(''text'', Str ''Aspirin 81 MG Oral Tablet''),
                          (''coding'', Arr
                             [Obj [(''display'', Str ''Aspirin 81 MG Oral Tablet''),
                                   (''system'', Str ''http://www.nlm.nih.gov/research/umls/rxnorm''),
                                   (''code'', Str ''243670'')]])])
               \<and> follow resource [Key ''medicationCodeableConcept'', Key ''coding''] =
                    Some (Arr [Obj [(''display'', Str ''Aspirin 81 MG Oral Tablet''),
                                    (''system'', Str ''http://www.nlm.nih.gov/research/umls/rxnorm''),
                                    (''code'', Str ''243670'')]])))
       \<and> (js_includes selections (rt @ ''/'' @ id_text) = Some False \<longrightarrow>
            order_select_example request response = Some (response\<lparr>statusCode := 200\<rparr>))"
proof -
  from rt(1) obtain kvs where obj: "draftOrder = Obj kvs"
    by (cases draftOrder) (auto split: if_splits)
  have chosen: "medication_chosen draftOrder selections = Some True"
    if "js_includes selections (rt @ ''/'' @ id_text) = Some True"
      and "follow draftOrder [Key ''medicationCodeableConcept'', Key ''coding'', First, Key ''code''] = Some c"
    for c
  proof -
    from that(2) obtain m where m: "property draftOrder ''medicationCodeableConcept'' = Some m"
      and "follow m [Key ''coding'', First, Key ''code''] = Some c"
      by (auto split: option.splits)
    then have "truthy m"
      by (cases m) (auto split: option.splits if_splits)
    with m rt i that(1) show ?thesis
      by (auto simp: medication_chosen_def)
  qed
  have not_chosen: "medication_chosen draftOrder selections = Some False"
    if "js_includes selections (rt @ ''/'' @ id_text) = Some False"
    using that rt i by (auto simp: medication_chosen_def)
  from d s obtain ctx dos en e0 where reads:
    "property (body request) ''context'' = Some ctx"
    "property ctx ''draftOrders'' = Some dos" "property dos ''entry'' = Some en"
    "elem0 en = Some e0" "property e0 ''resource'' = Some draftOrder"
    "property ctx ''selections'' = Some selections"
    by (auto split: option.splits)
  have handler: "order_select_example request response =
      (case medication_chosen draftOrder selections of None \<Rightarrow> None
       | Some chosen \<Rightarrow>
          if chosen then
            (case createMedicationResponseCard draftOrder of None \<Rightarrow> None
             | Some responseCard \<Rightarrow> Some (status 200 (send (JSON_stringify responseCard) response)))
          else Some (status 200 response))"
    using reads by (simp add: order_select_example_def split: option.splits)
  show ?thesis
  proof (intro conjI impI)
    assume a: "js_includes selections (rt @ ''/'' @ id_text) = Some True \<and>
          follow draftOrder [Key ''medicationCodeableConcept'', Key ''coding'', First, Key ''code'']
            = Some (Str ''243670'')"
    then have "medication_chosen draftOrder selections = Some True"
      using chosen by blast
    moreover from a have "createMedicationResponseCard draftOrder \<noteq> None"
      and "\<exists>the_card. createMedicationResponseCard draftOrder = Some (Obj [(''cards'', Arr [the_card])])
           \<and> property the_card ''indicator'' = Some (Str ''info'')
           \<and> property the_card ''suggestions'' = Some Undefined"
      by (auto simp: createMedicationResponseCard_def split: option.splits)
    ultimately show "\<exists>r the_card. order_select_example request response = Some r
               \<and> finished r \<and> statusCode r = 200
               \<and> payload r = Some (JSON_stringify (Obj [(''cards'', Arr [the_card])]))
               \<and> property the_card ''indicator'' = Some (Str ''info'')
               \<and> property the_card ''suggestions'' = Some Undefined"
      by (auto simp: handler status_def send_def)
  next
    assume a: "js_includes selections (rt @ ''/'' @ id_text) = Some True \<and>
          follow draftOrder [Key ''medicationCodeableConcept'', Key ''coding'', First, Key ''code'']
            = Some code \<and> code \<noteq> Str ''243670''"
    then have c: "medication_chosen draftOrder selections = Some True"
      using chosen by blast
    let ?target = "Obj [(''text'', Str ''Aspirin 81 MG Oral Tablet''),
                          (''coding'', Arr
                             [Obj [(''display'', Str ''Aspirin 81 MG Oral Tablet''),
                                   (''system'', Str ''http://www.nlm.nih.gov/research/umls/rxnorm''),
                                   (''code'', Str ''243670'')]])]"
    let ?resource = "set_prop draftOrder ''medicationCodeableConcept'' ?target"
    from a have the_card: "createMedicationResponseCard draftOrder = Some (Obj
         [(''cards'', Arr
            [Obj [(''summary'',
                   Str ''Reduce cardiovascular risks, prescribe daily 81 MG Aspirin''),
                  (''indicator'', Str ''warning''),
                  (''suggestions'', Arr
                     [Obj [(''label'', Str ''Switch to low-dose Aspirin''),
                           (''actions'', Arr
                              [Obj [(''type'', Str ''create''),
                                    (''description'', Str
                                       ''Modifying existing medication order to be Aspirin''),
                                    (''resource'', ?resource)]])]]),
                  (''source'', Obj
                     [(''label'', Str ''CDS Service Tutorial''),
                      (''url'', Str
                         ''https://github.com/cerner/cds-services-tutorial/wiki/Order-Select-Service'')])]])])"
      by (auto simp: createMedicationResponseCard_def split: option.splits)
    have "follow ?resource [Key ''medicationCodeableConcept'', Key ''coding''] =
                    Some (Arr [Obj [(''display'', Str ''Aspirin 81 MG Oral Tablet''),
                                    (''system'', Str ''http://www.nlm.nih.gov/research/umls/rxnorm''),
                                    (''code'', Str ''243670'')]])"
      unfolding obj by (simp add: update_conv')
    with c the_card show "\<exists>r the_card suggestion action resource.
               order_select_example request response = Some r
               \<and> finished r \<and> statusCode r = 200
               \<and> payload r = Some (JSON_stringify (Obj [(''cards'', Arr [the_card])]))
               \<and> property the_card ''indicator'' = Some (Str ''warning'')
               \<and> property the_card ''suggestions'' = Some (Arr [suggestion])
               \<and> property suggestion ''actions'' = Some (Arr [action])
               \<and> property action ''resource'' = Some resource
               \<and> resource = ?resource
               \<and> follow resource [Key ''medicationCodeableConcept'', Key ''coding''] =
                    Some (Arr [Obj [(''display'', Str ''Aspirin 81 MG Oral Tablet''),
                                    (''system'', Str ''http://www.nlm.nih.gov/research/umls/rxnorm''),
                                    (''code'', Str ''243670'')]])"
      by (simp add: handler status_def send_def)
  next
    assume "js_includes selections (rt @ ''/'' @ id_text) = Some False"
    then show "order_select_example request response = Some (response\<lparr>statusCode := 200\<rparr>)"
      using not_chosen by (simp add: handler status_def)
  qed
qed

text \<open>The decision at a draft order coded 11111, and at one coded 243670.\<close>

lemma order_select_decision_examples:
  "follow (body (order_request [draft_order ''11111''] [Str ''MedicationRequest/request-123'']))
     [Key ''context'', Key ''draftOrders'', Key ''entry'', First, Key ''resource'']
     = Some (draft_order ''11111'')
   \<and> follow (body (order_request [draft_order ''11111''] [Str ''MedicationRequest/request-123'']))
     [Key ''context'', Key ''selections''] = Some (Arr [Str ''MedicationRequest/request-123''])
   \<and> property (draft_order ''11111'') ''resourceType'' = Some (Str ''MedicationRequest'')
   \<and> property (draft_order ''11111'') ''id'' = Some (Str ''request-123'')
   \<and> js_includes (Arr [Str ''MedicationRequest/request-123''])
        (''MedicationRequest'' @ ''/'' @ ''request-123'') = Some True
   \<and> follow (draft_order ''11111'')
        [Key ''medicationCodeableConcept'', Key ''coding'', First, Key ''code'']
        = Some (Str ''11111'')
   \<and> Str ''11111'' \<noteq> Str ''243670''
   \<and> (\<exists>r c suggestion action resource.
         order_select_example
           (order_request [draft_order ''11111''] [Str ''MedicationRequest/request-123''])
           plain_response = Some r
         \<and> finished r \<and> statusCode r = 200
         \<and> payload r = Some (JSON_stringify (Obj [(''cards'', Arr [c])]))
         \<and> property c ''indicator'' = Some (Str ''warning'')
         \<and> property c ''suggestions'' = Some (Arr [suggestion])
         \<and> property suggestion ''actions'' = Some (Arr [action])
         \<and> property action ''resource'' = Some resource
         \<and> follow resource [Key ''medicationCodeableConcept'', Key ''coding''] =
              Some (Arr [Obj [(''display'', Str ''Aspirin 81 MG Oral Tablet''),
                              (''system'', Str ''http://www.nlm.nih.gov/research/umls/rxnorm''),
                              (''code'', Str ''243670'')]]))
   \<and> (\<exists>r c.
         order_select_example
           (order_request [draft_order ''243670''] [Str ''MedicationRequest/request-123''])
           plain_response = Some r
         \<and> finished r \<and> statusCode r = 200
         \<and> payload r = Some (JSON_stringify (Obj [(''cards'', Arr [c])]))
         \<and> property c ''indicator'' = Some (Str ''info'')
         \<and> property c ''suggestions'' = Some Undefined)
   \<and> js_includes (Arr [Str ''MedicationRequest/other''])
        (''MedicationRequest'' @ ''/'' @ ''request-123'') = Some False
   \<and> order_select_example
         (order_request [draft_order ''11111''] [Str ''MedicationRequest/other''])
         plain_response = Some (plain_response\<lparr>statusCode := 200\<rparr>)"
proof -
  have d: "follow (body (order_request [draft_order code] sel))
     [Key ''context'', Key ''draftOrders'', Key ''entry'', First, Key ''resource'']
     = Some (draft_order code)" for code sel
    by (simp add: order_request_def cds_request_def)
  have s: "follow (body (order_request [draft_order code] sel))
     [Key ''context'', Key ''selections''] = Some (Arr sel)" for code sel
    by (simp add: order_request_def cds_request_def)
  have rt: "property (draft_order code) ''resourceType'' = Some (Str ''MedicationRequest'')"
    and i: "property (draft_order code) ''id'' = Some (Str ''request-123'')"
    and t: "to_string (Str ''request-123'') = Some ''request-123''"
    and c: "follow (draft_order code)
        [Key ''medicationCodeableConcept'', Key ''coding'', First, Key ''code'']
        = Some (Str code)" for code
    by (simp_all add: draft_order_def)
  have k: "''MedicationRequest'' = ''MedicationRequest'' \<or>
           ''MedicationRequest'' = ''MedicationOrder''"
    by simp
  have yes: "js_includes (Arr [Str ''MedicationRequest/request-123''])
        (''MedicationRequest'' @ ''/'' @ ''request-123'') = Some True"
    and no: "js_includes (Arr [Str ''MedicationRequest/other''])
        (''MedicationRequest'' @ ''/'' @ ''request-123'') = Some False"
    and other: "Str ''11111'' \<noteq> Str ''243670''"
    by simp_all
  note warning = order_select_decision
      [OF d [of "''11111''" "[Str ''MedicationRequest/request-123'']"]
          s [of "''11111''" "[Str ''MedicationRequest/request-123'']"]
          rt [of "''11111''"] k i [of "''11111''"] t,
       where code = "Str ''11111''" and response = plain_response]
  note info = order_select_decision
      [OF d [of "''243670''" "[Str ''MedicationRequest/request-123'']"]
          s [of "''243670''" "[Str ''MedicationRequest/request-123'']"]
          rt [of "''243670''"] k i [of "''243670''"] t,
       where code = "Str ''243670''" and response = plain_response]
  note absent = order_select_decision
      [OF d [of "''11111''" "[Str ''MedicationRequest/other'']"]
          s [of "''11111''" "[Str ''MedicationRequest/other'']"]
          rt [of "''11111''"] k i [of "''11111''"] t,
       where code = "Str ''11111''" and response = plain_response]
  from warning yes c [of "''11111''"] other have w:
    "\<exists>r c suggestion action resource.
         order_select_example
           (order_request [draft_order ''11111''] [Str ''MedicationRequest/request-123''])
           plain_response = Some r
         \<and> finished r \<and> statusCode r = 200
         \<and> payload r = Some (JSON_stringify (Obj [(''cards'', Arr [c])]))
         \<and> property c ''indicator'' = Some (Str ''warning'')
         \<and> property c ''suggestions'' = Some (Arr [suggestion])
         \<and> property suggestion ''actions'' = Some (Arr [action])
         \<and> property action ''resource'' = Some resource
         \<and> follow resource [Key ''medicationCodeableConcept'', Key ''coding''] =
              Some (Arr [Obj [(''display'', Str ''Aspirin 81 MG Oral Tablet''),
                              (''system'', Str ''http://www.nlm.nih.gov/research/umls/rxnorm''),
                              (''code'', Str ''243670'')]])"
    by blast
  from info yes c [of "''243670''"] have n:
    "\<exists>r c.
         order_select_example
           (order_request [draft_order ''243670''] [Str ''MedicationRequest/request-123''])
           plain_response = Some r
         \<and> finished r \<and> statusCode r = 200
         \<and> payload r = Some (JSON_stringify (Obj [(''cards'', Arr [c])]))
         \<and> property c ''indicator'' = Some (Str ''info'')
         \<and> property c ''suggestions'' = Some Undefined"
    by blast
  from absent no have a:
    "order_select_example
         (order_request [draft_order ''11111''] [Str ''MedicationRequest/other''])
         plain_response = Some (plain_response\<lparr>statusCode := 200\<rparr>)"
    by blast
  show ?thesis
    by (intro conjI) (rule d s rt i c yes no other w n a)+
qed

text \<open>An id that cannot be converted to a string makes the handler throw at line 242.\<close>

lemma order_select_unprintable_id:
  "order_select_example
     (order_request [order_with_unprintable_id] [Str ''MedicationRequest/request-123''])
     plain_response = None"
  by (simp add: order_select_example_def order_request_def cds_request_def
        order_with_unprintable_id_def unprintable_def medication_chosen_def)

text \<open>
  C3 asks, for a draft order whose reference is absent from the selections, for a response
  that contains zero cards. The first two cases of the claim hold, as shown above. In the
  third the handler sends no response at all: line 247 stores the status 200 and neither
  \<^verbatim>\<open>send\<close> nor \<^verbatim>\<open>end\<close> is called, so the request that passed the gate is left
  without an answer.
\<close>

theorem order_select_unselected_sends_nothing:
  "authorize sample_verify sample_pem
     (order_request [draft_order ''11111''] [Str ''MedicationRequest/other'']) plain_response
   = Next
   \<and> order_select_example
       (order_request [draft_order ''11111''] [Str ''MedicationRequest/other''])
       plain_response
     = Some (plain_response\<lparr>statusCode := 200\<rparr>)
   \<and> post_endpoint express_error_handler order_select_example
       (order_request [draft_order ''11111''] [Str ''MedicationRequest/other''])
       plain_response
     = plain_response\<lparr>statusCode := 200\<rparr>
   \<and> \<not> finished (plain_response\<lparr>statusCode := 200\<rparr>)
   \<and> payload (plain_response\<lparr>statusCode := 200\<rparr>) = None"
  by (simp add: authorize_def sample_verify_def order_request_def cds_request_def
        request_with_token_def request_without_token_def post_endpoint_def
        order_select_example_def medication_chosen_def draft_order_def status_def
        plain_response_def)

section \<open>The Hypertension Flag handler\<close>

text \<open>
  The length of an array prints as \<^verbatim>\<open>0\<close> only when the array is empty, so the test
  \<^verbatim>\<open>entry.length\<close> is a test for a first entry. With a first entry the callback only
  looks at that entry.
\<close>

lemma show_nat_nonempty: "show_nat n \<noteq> []"
  by (induction n rule: show_nat.induct) (subst show_nat.simps, simp)

lemma show_nat_zero_iff: "show_nat n = ''0'' \<longleftrightarrow> n = 0"
proof (cases "n < 10")
  case True
  then have "n \<in> {0, 1, 2, 3, 4, 5, 6, 7, 8, 9}" by auto
  then show ?thesis by (auto simp: digit_def show_nat.simps)
next
  case False
  then have "show_nat n = show_nat (n div 10) @ [digit (n mod 10)]"
    by (subst show_nat.simps) simp
  moreover have "show_nat (n div 10) \<noteq> []" by (rule show_nat_nonempty)
  ultimately have "length (show_nat n) \<noteq> 1"
    by (cases "show_nat (n div 10)") auto
  with False show ?thesis by auto
qed

lemma callback_first_entry:
  assumes "property bundle ''entry'' = Some (Arr (e # es))"
  shows "conditions_callback bundle response =
     (case follow e [Key ''resource''] of None \<Rightarrow> None
      | Some resource \<Rightarrow>
         (case property resource ''resourceType'' of None \<Rightarrow> None
          | Some resourceType \<Rightarrow>
              (case loose_eq_str resourceType ''Condition'' of None \<Rightarrow> None
               | Some is_condition \<Rightarrow>
                   if is_condition then
                     (case follow resource [Key ''code'', Key ''text''] of None \<Rightarrow> None
                      | Some t \<Rightarrow>
                          (case to_string t of None \<Rightarrow> None
                           | Some condition_text \<Rightarrow> Some (send (JSON_stringify (Obj
             [(''cards'', Arr
                [Obj [(''summary'', Str (''Existing condition: '' @ condition_text)),
                      (''indicator'', Str ''warning''),
                      (''source'', Obj
                         [(''label'', Str ''CDS Service Tutorial''),
                          (''url'', Str
                             ''https://github.com/cerner/cds-services-tutorial/wiki/Exercises'')])]])])) response)))
                   else Some response)))"
  using assms
  by (simp add: conditions_callback_def show_nat_zero_iff split: option.splits)

lemma callback_no_entry:
  assumes "bundle = Undefined \<or> property bundle ''entry'' = Some Undefined \<or>
           property bundle ''entry'' = Some (Arr [])"
  shows "(case conditions_callback bundle response of None \<Rightarrow> response | Some r \<Rightarrow> r) = response"
  using assms by (auto simp: conditions_callback_def)

lemma hypertension_run:
  assumes "property (body request) ''fhirServer'' = Some fhirServer"
    and "follow (body request) [Key ''context'', Key ''patientId''] = Some patientId"
    and "property (body request) ''fhirAuthorization'' = Some fhirAuthorization"
    and "retrieveHypertensionConditionsFhirJs fhir_search fhirServer patientId fhirAuthorization
           = outcome"
  shows "patient_view_hypertension fhir_search request response =
     Some \<lparr>at_return = response\<lparr>statusCode := 200\<rparr>,
           at_settled =
             (case outcome of
                Fulfilled bundle \<Rightarrow>
                  (case conditions_callback bundle (response\<lparr>statusCode := 200\<rparr>) of
                     None \<Rightarrow> response\<lparr>statusCode := 200\<rparr>
                   | Some r \<Rightarrow> r)
              | Rejected e \<Rightarrow> response\<lparr>statusCode := 200\<rparr>)\<rparr>"
  using assms
  by (auto simp: patient_view_hypertension_def status_def Let_def split: option.splits settled.splits)


text \<open>
  C4, as index.js has it. When the fetched bundle's first entry has a resource of type
  \<^verbatim>\<open>Condition\<close> whose \<^verbatim>\<open>code.text\<close> can be read and converted to a string, the
  handler sends exactly one card, of indicator \<^verbatim>\<open>warning\<close>, whose summary is
  \<^verbatim>\<open>Existing condition: \<close> followed by that string. When the first entry has a resource of another type (whatever the later entries
  are), when the bundle has no entry or an empty list of entries, when the bundle is
  absent or the fetch was rejected, no card is sent: the response stays as the handler
  left it, with status 200 and nothing sent.
\<close>

theorem hypertension_first_entry:
  assumes f: "property (body request) ''fhirServer'' = Some fhirServer"
    and p: "follow (body request) [Key ''context'', Key ''patientId''] = Some patientId"
    and a: "property (body request) ''fhirAuthorization'' = Some fhirAuthorization"
    and o: "retrieveHypertensionConditionsFhirJs fhir_search fhirServer patientId
              fhirAuthorization = outcome"
  shows "(outcome = Fulfilled conditionsBundle
          \<and> property conditionsBundle ''entry'' = Some (Arr (e # es))
          \<and> follow e [Key ''resource''] = Some condition
          \<and> property condition ''resourceType'' = Some (Str ''Condition'')
          \<and> follow condition [Key ''code'', Key ''text''] = Some t
          \<and> to_string t = Some condition_text \<longrightarrow>
            (\<exists>run c. patient_view_hypertension fhir_search request response = Some run
               \<and> finished (at_settled run) \<and> statusCode (at_settled run) = 200
               \<and> payload (at_settled run) = Some (JSON_stringify (Obj [(''cards'', Arr [c])]))
               \<and> property c ''summary'' = Some (Str (''Existing condition: '' @ condition_text))
               \<and> property c ''indicator'' = Some (Str ''warning'')))
       \<and> (outcome = Fulfilled conditionsBundle
          \<and> property conditionsBundle ''entry'' = Some (Arr (e # es))
          \<and> follow e [Key ''resource'', Key ''resourceType''] = Some (Str rt)
          \<and> rt \<noteq> ''Condition'' \<longrightarrow>
            patient_view_hypertension fhir_search request response =
              Some \<lparr>at_return = response\<lparr>statusCode := 200\<rparr>,
                    at_settled = response\<lparr>statusCode := 200\<rparr>\<rparr>)
       \<and> (outcome = Fulfilled conditionsBundle
          \<and> (conditionsBundle = Undefined \<or> property conditionsBundle ''entry'' = Some Undefined \<or>
              property conditionsBundle ''entry'' = Some (Arr [])) \<longrightarrow>
            patient_view_hypertension fhir_search request response =
              Some \<lparr>at_return = response\<lparr>statusCode := 200\<rparr>,
                    at_settled = response\<lparr>statusCode := 200\<rparr>\<rparr>)
       \<and> (outcome = Rejected err \<longrightarrow>
            patient_view_hypertension fhir_search request response =
              Some \<lparr>at_return = response\<lparr>statusCode := 200\<rparr>,
                    at_settled = response\<lparr>statusCode := 200\<rparr>\<rparr>)"
proof (intro conjI impI)
  note run = hypertension_run [OF f p a o, of response]
  {
    assume h: "outcome = Fulfilled conditionsBundle
          \<and> property conditionsBundle ''entry'' = Some (Arr (e # es))
          \<and> follow e [Key ''resource''] = Some condition
          \<and> property condition ''resourceType'' = Some (Str ''Condition'')
          \<and> follow condition [Key ''code'', Key ''text''] = Some t
          \<and> to_string t = Some condition_text"
    then have "property conditionsBundle ''entry'' = Some (Arr (e # es))"
      by simp
    from callback_first_entry [OF this, of "response\<lparr>statusCode := 200\<rparr>"] h
    show "\<exists>run c. patient_view_hypertension fhir_search request response = Some run
               \<and> finished (at_settled run) \<and> statusCode (at_settled run) = 200
               \<and> payload (at_settled run) = Some (JSON_stringify (Obj [(''cards'', Arr [c])]))
               \<and> property c ''summary'' = Some (Str (''Existing condition: '' @ condition_text))
               \<and> property c ''indicator'' = Some (Str ''warning'')"
      by (simp add: run send_def)
  }
  {
    assume h: "outcome = Fulfilled conditionsBundle
          \<and> property conditionsBundle ''entry'' = Some (Arr (e # es))
          \<and> follow e [Key ''resource'', Key ''resourceType''] = Some (Str rt)
          \<and> rt \<noteq> ''Condition''"
    then have "property conditionsBundle ''entry'' = Some (Arr (e # es))"
      by simp
    from callback_first_entry [OF this, of "response\<lparr>statusCode := 200\<rparr>"] h
    show "patient_view_hypertension fhir_search request response =
              Some \<lparr>at_return = response\<lparr>statusCode := 200\<rparr>,
                    at_settled = response\<lparr>statusCode := 200\<rparr>\<rparr>"
      by (auto simp: run split: option.splits)
  }
  {
    assume h: "outcome = Fulfilled conditionsBundle
          \<and> (conditionsBundle = Undefined \<or> property conditionsBundle ''entry'' = Some Undefined \<or>
              property conditionsBundle ''entry'' = Some (Arr []))"
    then have "conditionsBundle = Undefined \<or> property conditionsBundle ''entry'' = Some Undefined \<or>
              property conditionsBundle ''entry'' = Some (Arr [])"
      by simp
    from callback_no_entry [OF this, of "response\<lparr>statusCode := 200\<rparr>"] h
    show "patient_view_hypertension fhir_search request response =
              Some \<lparr>at_return = response\<lparr>statusCode := 200\<rparr>,
                    at_settled = response\<lparr>statusCode := 200\<rparr>\<rparr>"
      by (simp add: run split: option.splits)
  }
  {
    assume "outcome = Rejected err"
    then show "patient_view_hypertension fhir_search request response =
              Some \<lparr>at_return = response\<lparr>statusCode := 200\<rparr>,
                    at_settled = response\<lparr>statusCode := 200\<rparr>\<rparr>"
      by (simp add: run)
  }
qed

theorem hypertension_first_entry_witness:
  "property (body hypertension_request) ''fhirServer'' = Some (Str ''https://fhir.example.org/r2'')
   \<and> follow (body hypertension_request) [Key ''context'', Key ''patientId'']
       = Some (Str ''SMART-1288992'')
   \<and> property (body hypertension_request) ''fhirAuthorization'' = Some Undefined
   \<and> retrieveHypertensionConditionsFhirJs
        (search_returns (bundle_of [condition_entry ''Hypertension'']))
        (Str ''https://fhir.example.org/r2'') (Str ''SMART-1288992'') Undefined
       = Fulfilled (bundle_of [condition_entry ''Hypertension''])
   \<and> property (bundle_of [condition_entry ''Hypertension'']) ''entry''
       = Some (Arr [condition_entry ''Hypertension''])
   \<and> follow (condition_entry ''Hypertension'') [Key ''resource'']
       = Some (Obj [(''resourceType'', Str ''Condition''),
                    (''code'', Obj [(''text'', Str ''Hypertension'')])])
   \<and> to_string (Str ''Hypertension'') = Some ''Hypertension''
   \<and> (\<exists>run c.
         patient_view_hypertension
           (search_returns (bundle_of [condition_entry ''Hypertension'']))
           hypertension_request plain_response = Some run
         \<and> finished (at_settled run) \<and> statusCode (at_settled run) = 200
         \<and> payload (at_settled run) = Some (JSON_stringify (Obj [(''cards'', Arr [c])]))
         \<and> property c ''summary'' = Some (Str ''Existing condition: Hypertension'')
         \<and> property c ''indicator'' = Some (Str ''warning''))
   \<and> retrieveHypertensionConditionsFhirJs
        (search_returns (bundle_of [outcome_entry, condition_entry ''Hypertension'']))
        (Str ''https://fhir.example.org/r2'') (Str ''SMART-1288992'') Undefined
       = Fulfilled (bundle_of [outcome_entry, condition_entry ''Hypertension''])
   \<and> follow outcome_entry [Key ''resource'', Key ''resourceType'']
       = Some (Str ''OperationOutcome'')
   \<and> patient_view_hypertension
        (search_returns (bundle_of [outcome_entry, condition_entry ''Hypertension'']))
        hypertension_request plain_response
       = Some \<lparr>at_return = plain_response\<lparr>statusCode := 200\<rparr>,
               at_settled = plain_response\<lparr>statusCode := 200\<rparr>\<rparr>
   \<and> retrieveHypertensionConditionsFhirJs search_fails
        (Str ''https://fhir.example.org/r2'') (Str ''SMART-1288992'') Undefined
       = Fulfilled Undefined
   \<and> patient_view_hypertension search_fails hypertension_request plain_response
       = Some \<lparr>at_return = plain_response\<lparr>statusCode := 200\<rparr>,
               at_settled = plain_response\<lparr>statusCode := 200\<rparr>\<rparr>"
proof -
  have f: "property (body hypertension_request) ''fhirServer''
             = Some (Str ''https://fhir.example.org/r2'')"
    and p: "follow (body hypertension_request) [Key ''context'', Key ''patientId'']
             = Some (Str ''SMART-1288992'')"
    and a: "property (body hypertension_request) ''fhirAuthorization'' = Some Undefined"
    by (simp_all add: hypertension_request_def cds_request_def request_with_token_def
        request_without_token_def)
  have ok: "retrieveHypertensionConditionsFhirJs (search_returns data)
             (Str ''https://fhir.example.org/r2'') (Str ''SMART-1288992'') Undefined
           = Fulfilled data" for data
    by (simp add: retrieveHypertensionConditionsFhirJs_def search_returns_def
          access_token_of_def promise_then_def promise_catch_def)
  have ko: "retrieveHypertensionConditionsFhirJs search_fails
             (Str ''https://fhir.example.org/r2'') (Str ''SMART-1288992'') Undefined
           = Fulfilled Undefined"
    by (simp add: retrieveHypertensionConditionsFhirJs_def search_fails_def
          access_token_of_def promise_then_def promise_catch_def)
  have en: "property (bundle_of entries) ''entry'' = Some (Arr entries)" for entries
    by (simp add: bundle_of_def)
  have c: "follow (condition_entry ''Hypertension'') [Key ''resource'']
       = Some (Obj [(''resourceType'', Str ''Condition''),
                    (''code'', Obj [(''text'', Str ''Hypertension'')])])"
    by (simp add: condition_entry_def)
  have oc: "follow outcome_entry [Key ''resource'', Key ''resourceType'']
       = Some (Str ''OperationOutcome'')"
    by (simp add: outcome_entry_def)
  have ts: "to_string (Str ''Hypertension'') = Some ''Hypertension''"
    by simp
  note w1 = hypertension_first_entry
      [OF f p a ok [of "bundle_of [condition_entry ''Hypertension'']"],
       where conditionsBundle = "bundle_of [condition_entry ''Hypertension'']"
         and e = "condition_entry ''Hypertension''" and es = "[]"
         and condition = "Obj [(''resourceType'', Str ''Condition''),
                               (''code'', Obj [(''text'', Str ''Hypertension'')])]"
         and t = "Str ''Hypertension''" and condition_text = "''Hypertension''"
         and response = plain_response]
  note w2 = hypertension_first_entry
      [OF f p a ok [of "bundle_of [outcome_entry, condition_entry ''Hypertension'']"],
       where conditionsBundle = "bundle_of [outcome_entry, condition_entry ''Hypertension'']"
         and e = outcome_entry and es = "[condition_entry ''Hypertension'']"
         and rt = "''OperationOutcome''" and response = plain_response]
  note w3 = hypertension_first_entry
      [OF f p a ko, where conditionsBundle = Undefined and response = plain_response]
  from w1 en c ts have 1: "\<exists>run c.
         patient_view_hypertension
           (search_returns (bundle_of [condition_entry ''Hypertension'']))
           hypertension_request plain_response = Some run
         \<and> finished (at_settled run) \<and> statusCode (at_settled run) = 200
         \<and> payload (at_settled run) = Some (JSON_stringify (Obj [(''cards'', Arr [c])]))
         \<and> property c ''summary'' = Some (Str ''Existing condition: Hypertension'')
         \<and> property c ''indicator'' = Some (Str ''warning'')"
    by simp
  from w2 en oc have 2: "patient_view_hypertension
        (search_returns (bundle_of [outcome_entry, condition_entry ''Hypertension'']))
        hypertension_request plain_response
       = Some \<lparr>at_return = plain_response\<lparr>statusCode := 200\<rparr>,
               at_settled = plain_response\<lparr>statusCode := 200\<rparr>\<rparr>"
    by simp
  from w3 have 3: "patient_view_hypertension search_fails hypertension_request plain_response
       = Some \<lparr>at_return = plain_response\<lparr>statusCode := 200\<rparr>,
               at_settled = plain_response\<lparr>statusCode := 200\<rparr>\<rparr>"
    by simp
  show ?thesis
    by (intro conjI) (rule f p a ok ko en c oc ts 1 2 3)+
qed

text \<open>
  C4 as the specification words it promises a card as soon as some entry of the bundle is
  a Condition. A bundle whose first entry is an OperationOutcome and whose second entry is
  a Condition contains a Condition, and no card is sent for it.
\<close>

theorem hypertension_later_condition_counterexample:
  "contains_condition (bundle_of [outcome_entry, condition_entry ''Hypertension''])
   \<and> retrieveHypertensionConditionsFhirJs
        (search_returns (bundle_of [outcome_entry, condition_entry ''Hypertension'']))
        (Str ''https://fhir.example.org/r2'') (Str ''SMART-1288992'') Undefined
      = Fulfilled (bundle_of [outcome_entry, condition_entry ''Hypertension''])
   \<and> patient_view_hypertension
        (search_returns (bundle_of [outcome_entry, condition_entry ''Hypertension'']))
        hypertension_request plain_response
      = Some \<lparr>at_return = plain_response\<lparr>statusCode := 200\<rparr>,
              at_settled = plain_response\<lparr>statusCode := 200\<rparr>\<rparr>
   \<and> payload (plain_response\<lparr>statusCode := 200\<rparr>) = None
   \<and> \<not> finished (plain_response\<lparr>statusCode := 200\<rparr>)"
  by (simp add: contains_condition_def bundle_of_def outcome_entry_def condition_entry_def
        retrieveHypertensionConditionsFhirJs_def search_returns_def access_token_of_def
        promise_then_def promise_catch_def patient_view_hypertension_def
        hypertension_request_def cds_request_def request_with_token_def
        request_without_token_def conditions_callback_def
        show_nat.simps digit_def status_def plain_response_def Let_def)

text \<open>
  A Condition whose \<^verbatim>\<open>code.text\<close> cannot be converted to a string makes the callback
  throw at line 210: no card is sent.
\<close>

lemma hypertension_unprintable_text:
  "patient_view_hypertension (search_returns (bundle_of [condition_entry_with unprintable]))
     hypertension_request plain_response
   = Some \<lparr>at_return = plain_response\<lparr>statusCode := 200\<rparr>,
           at_settled = plain_response\<lparr>statusCode := 200\<rparr>\<rparr>"
  by (simp add: bundle_of_def condition_entry_with_def unprintable_def
        retrieveHypertensionConditionsFhirJs_def search_returns_def access_token_of_def
        promise_then_def promise_catch_def patient_view_hypertension_def
        hypertension_request_def cds_request_def request_with_token_def
        request_without_token_def conditions_callback_def show_nat.simps digit_def
        status_def plain_response_def Let_def)

text \<open>
  C5 asks for exactly one response per request, sent after the fetch has settled. The
  handler never sends before the fetch settles: it only stores the status 200. But for a
  patient without hypertension (a bundle without entries) and for a failed fetch nothing
  is sent afterwards either: no response leaves the server.
\<close>

theorem hypertension_no_response_sent:
  "patient_view_hypertension (search_returns bundle_without_entry)
     hypertension_request plain_response
   = Some \<lparr>at_return = plain_response\<lparr>statusCode := 200\<rparr>,
           at_settled = plain_response\<lparr>statusCode := 200\<rparr>\<rparr>
   \<and> \<not> finished (plain_response\<lparr>statusCode := 200\<rparr>)
   \<and> patient_view_hypertension search_fails hypertension_request plain_response
   = Some \<lparr>at_return = plain_response\<lparr>statusCode := 200\<rparr>,
           at_settled = plain_response\<lparr>statusCode := 200\<rparr>\<rparr>"
  by (simp add: bundle_without_entry_def search_fails_def
        retrieveHypertensionConditionsFhirJs_def search_returns_def access_token_of_def
        promise_then_def promise_catch_def patient_view_hypertension_def
        hypertension_request_def cds_request_def request_with_token_def
        request_without_token_def conditions_callback_def
        status_def plain_response_def Let_def)

section \<open>Only the first entry is read\<close>

lemma order_select_first_entry:
  assumes "follow (body request) [Key ''context'', Key ''draftOrders'', Key ''entry'']
             = Some (Arr (d # ds))"
    and "follow (body request) [Key ''context'', Key ''selections''] = Some selections"
  shows "order_select_example request response =
     (case property d ''resource'' of None \<Rightarrow> None
      | Some draftOrder \<Rightarrow>
         (case medication_chosen draftOrder selections of None \<Rightarrow> None
          | Some chosen \<Rightarrow>
              if chosen then
                (case createMedicationResponseCard draftOrder of None \<Rightarrow> None
                 | Some responseCard \<Rightarrow> Some (status 200 (send (JSON_stringify responseCard) response)))
              else Some (status 200 response)))"
  using assms
  by (auto simp: order_select_example_def split: option.splits)

text \<open>
  C10. Both handlers look at the first entry of their list only. Two fetched bundles with
  the same first entry give the same result of the Hypertension Flag handler, whatever
  follows; and when the first entry is not a Condition no card is sent, even if a later
  entry is one. Two order-select requests with the same selections and the same first
  draft order give the same result, whatever draft orders follow; and when the first draft
  order is neither a MedicationRequest nor a MedicationOrder no card is sent, whatever
  follows.
\<close>

theorem handlers_read_first_entry_only:
  "(property (body request) ''fhirServer'' = Some fhirServer
    \<and> follow (body request) [Key ''context'', Key ''patientId''] = Some patientId
    \<and> property (body request) ''fhirAuthorization'' = Some fhirAuthorization
    \<and> retrieveHypertensionConditionsFhirJs fhir_search fhirServer patientId
         fhirAuthorization = Fulfilled conditionsBundle
    \<and> retrieveHypertensionConditionsFhirJs fhir_search' fhirServer patientId
         fhirAuthorization = Fulfilled conditionsBundle'
    \<and> property conditionsBundle ''entry'' = Some (Arr (e # es))
    \<and> property conditionsBundle' ''entry'' = Some (Arr (e # es')) \<longrightarrow>
      patient_view_hypertension fhir_search request response =
      patient_view_hypertension fhir_search' request response)
   \<and> (property (body request) ''fhirServer'' = Some fhirServer
    \<and> follow (body request) [Key ''context'', Key ''patientId''] = Some patientId
    \<and> property (body request) ''fhirAuthorization'' = Some fhirAuthorization
    \<and> retrieveHypertensionConditionsFhirJs fhir_search fhirServer patientId
         fhirAuthorization = Fulfilled conditionsBundle
    \<and> property conditionsBundle ''entry'' = Some (Arr (e # es))
    \<and> follow e [Key ''resource'', Key ''resourceType''] = Some (Str rt)
    \<and> rt \<noteq> ''Condition'' \<longrightarrow>
      patient_view_hypertension fhir_search request response =
        Some \<lparr>at_return = response\<lparr>statusCode := 200\<rparr>,
              at_settled = response\<lparr>statusCode := 200\<rparr>\<rparr>)
   \<and> (follow (body request) [Key ''context'', Key ''draftOrders'', Key ''entry'']
         = Some (Arr (d # ds))
    \<and> follow (body request') [Key ''context'', Key ''draftOrders'', Key ''entry'']
         = Some (Arr (d # ds'))
    \<and> follow (body request) [Key ''context'', Key ''selections''] = Some selections
    \<and> follow (body request') [Key ''context'', Key ''selections''] = Some selections \<longrightarrow>
      order_select_example request response = order_select_example request' response)
   \<and> (follow (body request) [Key ''context'', Key ''draftOrders'', Key ''entry'']
         = Some (Arr (d # ds))
    \<and> follow (body request) [Key ''context'', Key ''selections''] = Some selections
    \<and> follow d [Key ''resource'', Key ''resourceType''] = Some (Str drt)
    \<and> drt \<noteq> ''MedicationRequest'' \<and> drt \<noteq> ''MedicationOrder'' \<longrightarrow>
      order_select_example request response = Some (response\<lparr>statusCode := 200\<rparr>))"
proof (intro conjI impI)
  {
    assume h: "property (body request) ''fhirServer'' = Some fhirServer
    \<and> follow (body request) [Key ''context'', Key ''patientId''] = Some patientId
    \<and> property (body request) ''fhirAuthorization'' = Some fhirAuthorization
    \<and> retrieveHypertensionConditionsFhirJs fhir_search fhirServer patientId
         fhirAuthorization = Fulfilled conditionsBundle
    \<and> retrieveHypertensionConditionsFhirJs fhir_search' fhirServer patientId
         fhirAuthorization = Fulfilled conditionsBundle'
    \<and> property conditionsBundle ''entry'' = Some (Arr (e # es))
    \<and> property conditionsBundle' ''entry'' = Some (Arr (e # es'))"
    then have "conditions_callback conditionsBundle (response\<lparr>statusCode := 200\<rparr>) =
               conditions_callback conditionsBundle' (response\<lparr>statusCode := 200\<rparr>)"
      by (simp add: callback_first_entry)
    moreover from h have
      "patient_view_hypertension fhir_search request response =
         Some \<lparr>at_return = response\<lparr>statusCode := 200\<rparr>,
               at_settled =
                 (case conditions_callback conditionsBundle (response\<lparr>statusCode := 200\<rparr>) of
                    None \<Rightarrow> response\<lparr>statusCode := 200\<rparr> | Some r \<Rightarrow> r)\<rparr>"
      "patient_view_hypertension fhir_search' request response =
         Some \<lparr>at_return = response\<lparr>statusCode := 200\<rparr>,
               at_settled =
                 (case conditions_callback conditionsBundle' (response\<lparr>statusCode := 200\<rparr>) of
                    None \<Rightarrow> response\<lparr>statusCode := 200\<rparr> | Some r \<Rightarrow> r)\<rparr>"
      by (simp_all add: hypertension_run)
    ultimately show "patient_view_hypertension fhir_search request response =
      patient_view_hypertension fhir_search' request response"
      by simp
  }
  {
    assume h: "property (body request) ''fhirServer'' = Some fhirServer
    \<and> follow (body request) [Key ''context'', Key ''patientId''] = Some patientId
    \<and> property (body request) ''fhirAuthorization'' = Some fhirAuthorization
    \<and> retrieveHypertensionConditionsFhirJs fhir_search fhirServer patientId
         fhirAuthorization = Fulfilled conditionsBundle
    \<and> property conditionsBundle ''entry'' = Some (Arr (e # es))
    \<and> follow e [Key ''resource'', Key ''resourceType''] = Some (Str rt)
    \<and> rt \<noteq> ''Condition''"
    then have "conditions_callback conditionsBundle (response\<lparr>statusCode := 200\<rparr>) =
               Some (response\<lparr>statusCode := 200\<rparr>)"
      by (auto simp: callback_first_entry split: option.splits)
    moreover from h have
      "patient_view_hypertension fhir_search request response =
         Some \<lparr>at_return = response\<lparr>statusCode := 200\<rparr>,
               at_settled =
                 (case conditions_callback conditionsBundle (response\<lparr>statusCode := 200\<rparr>) of
                    None \<Rightarrow> response\<lparr>statusCode := 200\<rparr> | Some r \<Rightarrow> r)\<rparr>"
      by (simp add: hypertension_run)
    ultimately show "patient_view_hypertension fhir_search request response =
        Some \<lparr>at_return = response\<lparr>statusCode := 200\<rparr>,
              at_settled = response\<lparr>statusCode := 200\<rparr>\<rparr>"
      by simp
  }
  {
    assume "follow (body request) [Key ''context'', Key ''draftOrders'', Key ''entry'']
         = Some (Arr (d # ds))
    \<and> follow (body request') [Key ''context'', Key ''draftOrders'', Key ''entry'']
         = Some (Arr (d # ds'))
    \<and> follow (body request) [Key ''context'', Key ''selections''] = Some selections
    \<and> follow (body request') [Key ''context'', Key ''selections''] = Some selections"
    then show "order_select_example request response = order_select_example request' response"
      by (simp add: order_select_first_entry)
  }
  {
    assume h: "follow (body request) [Key ''context'', Key ''draftOrders'', Key ''entry'']
         = Some (Arr (d # ds))
    \<and> follow (body request) [Key ''context'', Key ''selections''] = Some selections
    \<and> follow d [Key ''resource'', Key ''resourceType''] = Some (Str drt)
    \<and> drt \<noteq> ''MedicationRequest'' \<and> drt \<noteq> ''MedicationOrder''"
    then have "order_select_example request response =
     (case property d ''resource'' of None \<Rightarrow> None
      | Some draftOrder \<Rightarrow>
         (case medication_chosen draftOrder selections of None \<Rightarrow> None
          | Some chosen \<Rightarrow>
              if chosen then
                (case createMedicationResponseCard draftOrder of None \<Rightarrow> None
                 | Some responseCard \<Rightarrow> Some (status 200 (send (JSON_stringify responseCard) response)))
              else Some (status 200 response)))"
      by (simp add: order_select_first_entry)
    with h show "order_select_example request response = Some (response\<lparr>statusCode := 200\<rparr>)"
      by (auto simp: medication_chosen_def status_def split: option.splits)
  }
qed

theorem handlers_read_first_entry_only_witness:
  "property (body hypertension_request) ''fhirServer'' = Some (Str ''https://fhir.example.org/r2'')
   \<and> follow (body hypertension_request) [Key ''context'', Key ''patientId'']
       = Some (Str ''SMART-1288992'')
   \<and> property (body hypertension_request) ''fhirAuthorization'' = Some Undefined
   \<and> retrieveHypertensionConditionsFhirJs
        (search_returns (bundle_of [condition_entry ''Hypertension'', outcome_entry]))
        (Str ''https://fhir.example.org/r2'') (Str ''SMART-1288992'') Undefined
       = Fulfilled (bundle_of [condition_entry ''Hypertension'', outcome_entry])
   \<and> retrieveHypertensionConditionsFhirJs
        (search_returns (bundle_of [condition_entry ''Hypertension'']))
        (Str ''https://fhir.example.org/r2'') (Str ''SMART-1288992'') Undefined
       = Fulfilled (bundle_of [condition_entry ''Hypertension''])
   \<and> property (bundle_of [condition_entry ''Hypertension'', outcome_entry]) ''entry''
       = Some (Arr [condition_entry ''Hypertension'', outcome_entry])
   \<and> property (bundle_of [condition_entry ''Hypertension'']) ''entry''
       = Some (Arr [condition_entry ''Hypertension''])
   \<and> patient_view_hypertension
        (search_returns (bundle_of [condition_entry ''Hypertension'', outcome_entry]))
        hypertension_request plain_response
       = patient_view_hypertension
        (search_returns (bundle_of [condition_entry ''Hypertension'']))
        hypertension_request plain_response
   \<and> retrieveHypertensionConditionsFhirJs
        (search_returns (bundle_of [outcome_entry, condition_entry ''Hypertension'']))
        (Str ''https://fhir.example.org/r2'') (Str ''SMART-1288992'') Undefined
       = Fulfilled (bundle_of [outcome_entry, condition_entry ''Hypertension''])
   \<and> property (bundle_of [outcome_entry, condition_entry ''Hypertension'']) ''entry''
       = Some (Arr [outcome_entry, condition_entry ''Hypertension''])
   \<and> follow outcome_entry [Key ''resource'', Key ''resourceType'']
       = Some (Str ''OperationOutcome'')
   \<and> ''OperationOutcome'' \<noteq> ''Condition''
   \<and> patient_view_hypertension
        (search_returns (bundle_of [outcome_entry, condition_entry ''Hypertension'']))
        hypertension_request plain_response
       = Some \<lparr>at_return = plain_response\<lparr>statusCode := 200\<rparr>,
               at_settled = plain_response\<lparr>statusCode := 200\<rparr>\<rparr>
   \<and> follow (body (order_request [draft_order ''11111'', draft_order ''243670'']
                      [Str ''MedicationRequest/request-123'']))
        [Key ''context'', Key ''draftOrders'', Key ''entry'']
       = Some (Arr [Obj [(''resource'', draft_order ''11111'')],
                    Obj [(''resource'', draft_order ''243670'')]])
   \<and> follow (body (order_request [draft_order ''11111'']
                      [Str ''MedicationRequest/request-123'']))
        [Key ''context'', Key ''draftOrders'', Key ''entry'']
       = Some (Arr [Obj [(''resource'', draft_order ''11111'')]])
   \<and> follow (body (order_request [draft_order ''11111'', draft_order ''243670'']
                      [Str ''MedicationRequest/request-123'']))
        [Key ''context'', Key ''selections'']
       = Some (Arr [Str ''MedicationRequest/request-123''])
   \<and> follow (body (order_request [draft_order ''11111'']
                      [Str ''MedicationRequest/request-123'']))
        [Key ''context'', Key ''selections'']
       = Some (Arr [Str ''MedicationRequest/request-123''])
   \<and> order_select_example
        (order_request [draft_order ''11111'', draft_order ''243670'']
           [Str ''MedicationRequest/request-123'']) plain_response
       = order_select_example
        (order_request [draft_order ''11111''] [Str ''MedicationRequest/request-123''])
        plain_response
   \<and> follow (body (order_request [service_order, draft_order ''11111'']
                      [Str ''MedicationRequest/request-123'']))
        [Key ''context'', Key ''draftOrders'', Key ''entry'']
       = Some (Arr [Obj [(''resource'', service_order)],
                    Obj [(''resource'', draft_order ''11111'')]])
   \<and> follow (body (order_request [service_order, draft_order ''11111'']
                      [Str ''MedicationRequest/request-123'']))
        [Key ''context'', Key ''selections'']
       = Some (Arr [Str ''MedicationRequest/request-123''])
   \<and> follow (Obj [(''resource'', service_order)]) [Key ''resource'', Key ''resourceType'']
       = Some (Str ''ServiceRequest'')
   \<and> ''ServiceRequest'' \<noteq> ''MedicationRequest''
   \<and> ''ServiceRequest'' \<noteq> ''MedicationOrder''
   \<and> order_select_example
        (order_request [service_order, draft_order ''11111'']
           [Str ''MedicationRequest/request-123'']) plain_response
       = Some (plain_response\<lparr>statusCode := 200\<rparr>)"
proof -
  have f: "property (body hypertension_request) ''fhirServer''
             = Some (Str ''https://fhir.example.org/r2'')"
    and p: "follow (body hypertension_request) [Key ''context'', Key ''patientId'']
             = Some (Str ''SMART-1288992'')"
    and a: "property (body hypertension_request) ''fhirAuthorization'' = Some Undefined"
    by (simp_all add: hypertension_request_def cds_request_def request_with_token_def
          request_without_token_def)
  have ok: "retrieveHypertensionConditionsFhirJs (search_returns data)
             (Str ''https://fhir.example.org/r2'') (Str ''SMART-1288992'') Undefined
           = Fulfilled data" for data
    by (simp add: retrieveHypertensionConditionsFhirJs_def search_returns_def
          access_token_of_def promise_then_def promise_catch_def)
  have en: "property (bundle_of entries) ''entry'' = Some (Arr entries)" for entries
    by (simp add: bundle_of_def)
  have oc: "follow outcome_entry [Key ''resource'', Key ''resourceType'']
       = Some (Str ''OperationOutcome'')"
    by (simp add: outcome_entry_def)
  have ne: "''OperationOutcome'' \<noteq> ''Condition''"
    "''ServiceRequest'' \<noteq> ''MedicationRequest''" "''ServiceRequest'' \<noteq> ''MedicationOrder''"
    by simp_all
  have d: "follow (body (order_request drafts sel))
        [Key ''context'', Key ''draftOrders'', Key ''entry'']
       = Some (Arr (map (\<lambda>d. Obj [(''resource'', d)]) drafts))" for drafts sel
    by (simp add: order_request_def cds_request_def)
  have s: "follow (body (order_request drafts sel)) [Key ''context'', Key ''selections'']
       = Some (Arr sel)" for drafts sel
    by (simp add: order_request_def cds_request_def)
  have so: "follow (Obj [(''resource'', service_order)]) [Key ''resource'', Key ''resourceType'']
       = Some (Str ''ServiceRequest'')"
    by (simp add: service_order_def)
  note w = handlers_read_first_entry_only
    [where request = hypertension_request and response = plain_response
       and fhirServer = "Str ''https://fhir.example.org/r2''"
       and patientId = "Str ''SMART-1288992''" and fhirAuthorization = Undefined]
  have 1: "patient_view_hypertension
        (search_returns (bundle_of [condition_entry ''Hypertension'', outcome_entry]))
        hypertension_request plain_response
       = patient_view_hypertension
        (search_returns (bundle_of [condition_entry ''Hypertension'']))
        hypertension_request plain_response"
    using w [where fhir_search =
          "search_returns (bundle_of [condition_entry ''Hypertension'', outcome_entry])"
        and fhir_search' = "search_returns (bundle_of [condition_entry ''Hypertension''])"
        and conditionsBundle = "bundle_of [condition_entry ''Hypertension'', outcome_entry]"
        and conditionsBundle' = "bundle_of [condition_entry ''Hypertension'']"
        and e = "condition_entry ''Hypertension''" and es = "[outcome_entry]" and es' = "[]"]
      f p a ok en
    by simp
  have 2: "patient_view_hypertension
        (search_returns (bundle_of [outcome_entry, condition_entry ''Hypertension'']))
        hypertension_request plain_response
       = Some \<lparr>at_return = plain_response\<lparr>statusCode := 200\<rparr>,
               at_settled = plain_response\<lparr>statusCode := 200\<rparr>\<rparr>"
    using w [where fhir_search =
          "search_returns (bundle_of [outcome_entry, condition_entry ''Hypertension''])"
        and conditionsBundle = "bundle_of [outcome_entry, condition_entry ''Hypertension'']"
        and e = outcome_entry and es = "[condition_entry ''Hypertension'']"
        and rt = "''OperationOutcome''"]
      f p a ok en oc ne
    by simp
  have 3: "order_select_example
        (order_request [draft_order ''11111'', draft_order ''243670'']
           [Str ''MedicationRequest/request-123'']) plain_response
       = order_select_example
        (order_request [draft_order ''11111''] [Str ''MedicationRequest/request-123''])
        plain_response"
    using handlers_read_first_entry_only
      [where request = "order_request [draft_order ''11111'', draft_order ''243670'']
                          [Str ''MedicationRequest/request-123'']"
         and request' = "order_request [draft_order ''11111'']
                          [Str ''MedicationRequest/request-123'']"
         and d = "Obj [(''resource'', draft_order ''11111'')]"
         and ds = "[Obj [(''resource'', draft_order ''243670'')]]" and ds' = "[]"
         and selections = "Arr [Str ''MedicationRequest/request-123'']"
         and response = plain_response]
      d s
    by simp
  have 4: "order_select_example
        (order_request [service_order, draft_order ''11111'']
           [Str ''MedicationRequest/request-123'']) plain_response
       = Some (plain_response\<lparr>statusCode := 200\<rparr>)"
    using handlers_read_first_entry_only
      [where request = "order_request [service_order, draft_order ''11111'']
                          [Str ''MedicationRequest/request-123'']"
         and d = "Obj [(''resource'', service_order)]"
         and ds = "[Obj [(''resource'', draft_order ''11111'')]]"
         and selections = "Arr [Str ''MedicationRequest/request-123'']"
         and drt = "''ServiceRequest''" and response = plain_response]
      d s so ne
    by simp
  show ?thesis
    using d [of "[draft_order ''11111'', draft_order ''243670'']"]
      d [of "[draft_order ''11111'']"] d [of "[service_order, draft_order ''11111'']"]
    by (intro conjI) (simp_all only: f p a ok en oc ne s so 1 2 3 4 list.map simp_thms)
qed

section \<open>The Clinical Data Fetcher\<close>

text \<open>
  What the axios variant fulfils with is a Bundle or nothing, and it does fulfil when the
  access token and the reason of a rejection can be converted to strings. The fhir.js
  variant, the one the handler calls, hands on whatever body the server sent, and swallows
  a rejection whose reason can be read.
\<close>

lemma axios_fetcher_bundle_or_nothing:
  assumes "retrieveHypertensionConditionsAxios axios_get fhirServer patientId fhirAuthorization
             = Some (Fulfilled v)"
  shows "v = Undefined \<or> property v ''resourceType'' = Some (Str ''Bundle'')"
  using assms
  by (auto simp: retrieveHypertensionConditionsAxios_def promise_then_def promise_catch_def
        Let_def bind_eq_None_conv bind_eq_Some_conv
        split: settled.splits option.splits if_splits)

lemma axios_fetcher_fulfils:
  assumes "access_token_of fhirAuthorization = None \<or>
           (\<exists>t text. access_token_of fhirAuthorization = Some t \<and> to_string t = Some text)"
    and "\<And>url config err. axios_get url config = Rejected err \<Longrightarrow>
           reason_to_string err \<noteq> None"
  shows "\<exists>v. retrieveHypertensionConditionsAxios axios_get fhirServer patientId
               fhirAuthorization = Some (Fulfilled v)"
proof -
  obtain request_headers where h:
    "(case access_token_of fhirAuthorization of
        Some t \<Rightarrow> to_string t \<bind>
          (\<lambda>token_text. Some (set_prop (Obj [(''Accept'', Str ''application/json+fhir'')])
             ''Authorization'' (Str (''Bearer '' @ token_text))))
      | None \<Rightarrow> Some (Obj [(''Accept'', Str ''application/json+fhir'')]))
     = Some request_headers"
    using assms(1) by auto
  show ?thesis
    using assms(2)
    by (fastforce simp: retrieveHypertensionConditionsAxios_def h promise_then_def
          promise_catch_def Let_def bind_eq_None_conv split: settled.splits option.splits)
qed

lemma fhirjs_fetcher_returns_data:
  assumes "\<And>config query. fhir_search config query = Fulfilled res"
    and "property res ''data'' = Some data"
  shows "retrieveHypertensionConditionsFhirJs fhir_search fhirServer patientId fhirAuthorization
         = Fulfilled data"
  using assms
  by (simp add: retrieveHypertensionConditionsFhirJs_def promise_then_def promise_catch_def
        Let_def)


text \<open>
  C6 asks that a successful fetch returns the body only if it is a Bundle. The axios
  variant (lines 271 to 274) checks this; the fhir.js variant (line 295) does not: for a
  server that answers with an OperationOutcome it returns the OperationOutcome, where the
  axios variant returns nothing. A rejected request is swallowed by both variants, which
  then return nothing.
\<close>

theorem fhirjs_fetcher_returns_non_bundle:
  "retrieveHypertensionConditionsFhirJs (search_returns operation_outcome)
     (Str ''https://fhir.example.org/r2'') (Str ''SMART-1288992'') Undefined
   = Fulfilled operation_outcome
   \<and> property operation_outcome ''resourceType'' = Some (Str ''OperationOutcome'')
   \<and> retrieveHypertensionConditionsAxios (axios_returns operation_outcome)
     (Str ''https://fhir.example.org/r2'') (Str ''SMART-1288992'') Undefined
   = Some (Fulfilled Undefined)
   \<and> retrieveHypertensionConditionsFhirJs search_fails
     (Str ''https://fhir.example.org/r2'') (Str ''SMART-1288992'') Undefined
   = Fulfilled Undefined
   \<and> retrieveHypertensionConditionsAxios axios_fails
     (Str ''https://fhir.example.org/r2'') (Str ''SMART-1288992'') Undefined
   = Some (Fulfilled Undefined)"
  by (simp add: retrieveHypertensionConditionsFhirJs_def search_returns_def
        access_token_of_def promise_then_def promise_catch_def operation_outcome_def
        retrieveHypertensionConditionsAxios_def axios_returns_def search_fails_def
        axios_fails_def)

section \<open>What the handlers send\<close>

lemma card_created_has_source:
  assumes "createMedicationResponseCard context = Some v"
  shows "cards_body (JSON_stringify v)"
  using assms
  by (auto simp: createMedicationResponseCard_def cards_body_def has_source_def Let_def
        bind_eq_Some_conv split: if_splits)

lemma callback_sends_cards_body:
  assumes "conditions_callback conditionsBundle response = Some r"
  shows "r = response \<or> (\<exists>t. r = send t response \<and> cards_body t)"
  using assms
  by (auto simp: conditions_callback_def cards_body_def has_source_def Let_def
        bind_eq_Some_conv split: if_splits)

text \<open>
  C9, as index.js has it. Whenever one of the three POST handlers has itself sent a
  response, the body sent is the JSON text of an object whose \<^verbatim>\<open>cards\<close> is an array, and
  every card in it has a \<^verbatim>\<open>source\<close> with a label and a url. The only other body that
  leaves a POST endpoint is the one of the framework's error handler, sent when the
  handler throws.
\<close>

theorem sent_bodies_are_cards:
  "(patient_view_example request response = Some r \<and> \<not> finished response \<and> finished r \<longrightarrow>
      (\<exists>t. payload r = Some t \<and> cards_body t))
   \<and> (order_select_example request response = Some r \<and> \<not> finished response \<and> finished r \<longrightarrow>
      (\<exists>t. payload r = Some t \<and> cards_body t))
   \<and> (patient_view_hypertension fhir_search request response = Some run
       \<and> \<not> finished response \<and> finished (at_settled run) \<longrightarrow>
      (\<exists>t. payload (at_settled run) = Some t \<and> cards_body t))
   \<and> (\<not> finished response
       \<and> finished (post_endpoint error_handler patient_view_example request response) \<longrightarrow>
      (\<exists>t. payload (post_endpoint error_handler patient_view_example request response)
             = Some t \<and> cards_body t)
      \<or> (patient_view_example request response = None
          \<and> post_endpoint error_handler patient_view_example request response
              = error_handler response))
   \<and> (\<not> finished response
       \<and> finished (post_endpoint error_handler order_select_example request response) \<longrightarrow>
      (\<exists>t. payload (post_endpoint error_handler order_select_example request response)
             = Some t \<and> cards_body t)
      \<or> (order_select_example request response = None
          \<and> post_endpoint error_handler order_select_example request response
              = error_handler response))"
proof -
  have 1: "\<exists>t. payload r = Some t \<and> cards_body t"
    if "patient_view_example request response = Some r" "\<not> finished response" "finished r"
    for r
    using that
    by (auto simp: patient_view_example_def send_def cards_body_def has_source_def Let_def
          bind_eq_Some_conv)
  have 2: "\<exists>t. payload r = Some t \<and> cards_body t"
    if "order_select_example request response = Some r" "\<not> finished response" "finished r"
    for r
    using that
    by (auto simp: order_select_example_def send_def status_def bind_eq_Some_conv
          split: if_splits dest: card_created_has_source)
  have 3: "\<exists>t. payload (at_settled run) = Some t \<and> cards_body t"
    if h: "patient_view_hypertension fhir_search request response = Some run"
      "\<not> finished response" "finished (at_settled run)"
  proof -
    from h(1) obtain outcome where "at_settled run =
             (case outcome of
                Fulfilled conditionsBundle \<Rightarrow>
                  (case conditions_callback conditionsBundle (response\<lparr>statusCode := 200\<rparr>) of
                     Some response2 \<Rightarrow> response2
                   | None \<Rightarrow> response\<lparr>statusCode := 200\<rparr>)
              | Rejected e \<Rightarrow> response\<lparr>statusCode := 200\<rparr>)"
      by (auto simp: patient_view_hypertension_def Let_def status_def bind_eq_Some_conv)
    with h(2,3) show ?thesis
      by (auto simp: send_def split: settled.splits option.splits
            dest!: callback_sends_cards_body)
  qed
  have 4: "(\<exists>t. payload (post_endpoint error_handler patient_view_example request response)
             = Some t \<and> cards_body t)
      \<or> (patient_view_example request response = None
          \<and> post_endpoint error_handler patient_view_example request response
              = error_handler response)"
    if "\<not> finished response"
      "finished (post_endpoint error_handler patient_view_example request response)"
    using that 1 by (cases "patient_view_example request response")
      (auto simp: post_endpoint_def)
  have 5: "(\<exists>t. payload (post_endpoint error_handler order_select_example request response)
             = Some t \<and> cards_body t)
      \<or> (order_select_example request response = None
          \<and> post_endpoint error_handler order_select_example request response
              = error_handler response)"
    if "\<not> finished response"
      "finished (post_endpoint error_handler order_select_example request response)"
    using that 2 by (cases "order_select_example request response")
      (auto simp: post_endpoint_def)
  from 1 2 3 4 5 show ?thesis
    by blast
qed

theorem sent_bodies_are_cards_witness:
  "\<not> finished plain_response
   \<and> (\<exists>r. patient_view_example greeting_request plain_response = Some r \<and> finished r
          \<and> (\<exists>t. payload r = Some t \<and> cards_body t))
   \<and> (\<exists>r. order_select_example
            (order_request [draft_order ''11111''] [Str ''MedicationRequest/request-123''])
            plain_response = Some r \<and> finished r
          \<and> (\<exists>t. payload r = Some t \<and> cards_body t))
   \<and> (\<exists>run. patient_view_hypertension
            (search_returns (bundle_of [condition_entry ''Hypertension'']))
            hypertension_request plain_response = Some run \<and> finished (at_settled run)
          \<and> (\<exists>t. payload (at_settled run) = Some t \<and> cards_body t))
   \<and> finished (post_endpoint express_error_handler patient_view_example greeting_request
        plain_response)
   \<and> (\<exists>t. payload (post_endpoint express_error_handler patient_view_example
                greeting_request plain_response) = Some t \<and> cards_body t)
   \<and> finished (post_endpoint express_error_handler order_select_example
        empty_order_request plain_response)
   \<and> order_select_example empty_order_request plain_response = None
   \<and> post_endpoint express_error_handler order_select_example empty_order_request
        plain_response = express_error_handler plain_response"
proof -
  have n: "\<not> finished plain_response"
    by (simp add: plain_response_def)
  obtain r1 where 1: "patient_view_example greeting_request plain_response = Some r1"
    "finished r1"
    by (simp add: patient_view_example_def greeting_request_def greeting_request_for_def
          tom_hanks_def cds_request_def send_def)
  obtain r2 where 2: "order_select_example
            (order_request [draft_order ''11111''] [Str ''MedicationRequest/request-123''])
            plain_response = Some r2" "finished r2"
    by (simp add: order_select_example_def order_request_def draft_order_def
          cds_request_def medication_chosen_def createMedicationResponseCard_def
          send_def status_def)
  obtain run where 3: "patient_view_hypertension
            (search_returns (bundle_of [condition_entry ''Hypertension'']))
            hypertension_request plain_response = Some run" "finished (at_settled run)"
    by (simp add: patient_view_hypertension_def hypertension_request_def cds_request_def
          retrieveHypertensionConditionsFhirJs_def
          search_returns_def access_token_of_def promise_then_def promise_catch_def
          bundle_of_def condition_entry_def conditions_callback_def show_nat.simps
          digit_def send_def status_def Let_def)
  have 4: "finished (post_endpoint express_error_handler patient_view_example
             greeting_request plain_response)"
    using 1 by (simp add: post_endpoint_def)
  have e: "order_select_example empty_order_request plain_response = None"
    by (simp add: order_select_example_def empty_order_request_def cds_request_def)
  then have 5: "finished (post_endpoint express_error_handler order_select_example
             empty_order_request plain_response)"
    and 6: "post_endpoint express_error_handler order_select_example empty_order_request
             plain_response = express_error_handler plain_response"
    by (simp_all add: post_endpoint_def express_error_handler_def)
  note w = sent_bodies_are_cards [where response = plain_response]
  from w [where request = greeting_request and r = r1] 1 n
  have a: "\<exists>r. patient_view_example greeting_request plain_response = Some r \<and> finished r
          \<and> (\<exists>t. payload r = Some t \<and> cards_body t)"
    by blast
  from w [where request =
        "order_request [draft_order ''11111''] [Str ''MedicationRequest/request-123'']"
       and r = r2] 2 n
  have b: "\<exists>r. order_select_example
            (order_request [draft_order ''11111''] [Str ''MedicationRequest/request-123''])
            plain_response = Some r \<and> finished r
          \<and> (\<exists>t. payload r = Some t \<and> cards_body t)"
    by blast
  from w [where fhir_search = "search_returns (bundle_of [condition_entry ''Hypertension''])"
       and request = hypertension_request and run = run] 3 n
  have c: "\<exists>run. patient_view_hypertension
            (search_returns (bundle_of [condition_entry ''Hypertension'']))
            hypertension_request plain_response = Some run \<and> finished (at_settled run)
          \<and> (\<exists>t. payload (at_settled run) = Some t \<and> cards_body t)"
    by blast
  from w [where request = greeting_request and error_handler = express_error_handler] 4 n 1
  have d: "\<exists>t. payload (post_endpoint express_error_handler patient_view_example
                greeting_request plain_response) = Some t \<and> cards_body t"
    by auto
  show ?thesis
    by (intro conjI) (rule n a b c 4 d 5 e 6)+
qed

text \<open>
  C9 as the specification words it covers every body that a POST endpoint sends. A request
  with a good token whose body is the empty object makes the handler throw, and the body
  that leaves the endpoint is the error page of the framework, with status 500: no object
  with a \<^verbatim>\<open>cards\<close> array.
\<close>

theorem error_page_counterexample:
  "authorize sample_verify sample_pem empty_greeting_request plain_response = Next
   \<and> post_endpoint express_error_handler patient_view_example empty_greeting_request
        plain_response
      = plain_response\<lparr>statusCode := 500, payload := Some (Page ''<pre>TypeError</pre>''),
                       finished := True\<rparr>
   \<and> \<not> cards_body (Page ''<pre>TypeError</pre>'')"
  by (simp add: authorize_def sample_verify_def empty_greeting_request_def cds_request_def
        request_with_token_def request_without_token_def post_endpoint_def
        patient_view_example_def express_error_handler_def plain_response_def
        cards_body_def)

section \<open>Failures behind the gate\<close>





end
